theory Spec2Isabelle
  imports Complex_Main
begin

section \<open>JavaScript strings\<close>

text \<open>
  Strings are \<^typ>\<open>string\<close>. Only the ASCII part of the JavaScript string functions is
  modelled: lower-casing maps \<open>A\<close>..\<open>Z\<close> to \<open>a\<close>..\<open>z\<close> and leaves every other character
  alone, whatever the locale, and white space is the ASCII white space.
\<close>

definition newline :: char where
  "newline = CHR 0x0A"

definition carriage_return :: char where
  "carriage_return = CHR 0x0D"

definition lower_char :: "char \<Rightarrow> char" where
  "lower_char c =
     (case map_of (zip ''ABCDEFGHIJKLMNOPQRSTUVWXYZ'' ''abcdefghijklmnopqrstuvwxyz'') c of
        Some l \<Rightarrow> l
      | None \<Rightarrow> c)"

text \<open>\<open>s.toLowerCase()\<close> and \<open>s.toLocaleLowerCase()\<close>.\<close>

definition toLowerCase :: "string \<Rightarrow> string" where
  "toLowerCase s = map lower_char s"

text \<open>\<open>s.startsWith(p)\<close>.\<close>

fun startsWith :: "string \<Rightarrow> string \<Rightarrow> bool" where
  "startsWith s [] = True"
| "startsWith [] (p # ps) = False"
| "startsWith (c # s) (p # ps) = (c = p \<and> startsWith s ps)"

text \<open>\<open>s.indexOf(p) > -1\<close>: the string \<open>p\<close> occurs somewhere in \<open>s\<close>.\<close>

fun indexOf_found :: "string \<Rightarrow> string \<Rightarrow> bool" where
  "indexOf_found [] p = (p = [])"
| "indexOf_found (c # s) p = (startsWith (c # s) p \<or> indexOf_found s p)"

text \<open>\<open>s.split(d)\<close> for a one-character separator: never empty, \<open>"".split(",")\<close> is \<open>[""]\<close>.\<close>

fun split_on :: "char \<Rightarrow> string \<Rightarrow> string list" where
  "split_on d [] = [[]]"
| "split_on d (c # cs) =
     (if c = d then [] # split_on d cs
      else (case split_on d cs of
              [] \<Rightarrow> [[c]]
            | f # fs \<Rightarrow> (c # f) # fs))"

text \<open>\<open>xs.join(d)\<close> for a one-character separator.\<close>

fun join_with :: "char \<Rightarrow> string list \<Rightarrow> string" where
  "join_with d [] = []"
| "join_with d [l] = l"
| "join_with d (l # m # ls) = l @ d # join_with d (m # ls)"

definition strip_cr :: "string \<Rightarrow> string" where
  "strip_cr l = (if l \<noteq> [] \<and> last l = carriage_return then butlast l else l)"

text \<open>
  \<open>input.split(/\r?\n/)\<close>: the text is cut at every line feed, and a carriage return
  right before a line feed belongs to the separator.
\<close>

definition split_lines :: "string \<Rightarrow> string list" where
  "split_lines s = (let ps = split_on newline s in map strip_cr (butlast ps) @ [last ps])"

definition is_space :: "char \<Rightarrow> bool" where
  "is_space c \<longleftrightarrow> c \<in> set [CHR '' '', CHR 0x09, CHR 0x0A, CHR 0x0B, CHR 0x0C, CHR 0x0D]"

text \<open>\<open>!s.trim()\<close>: the string is empty once its white space is trimmed.\<close>

definition blank :: "string \<Rightarrow> bool" where
  "blank s \<longleftrightarrow> list_all is_space s"

definition is_digit :: "char \<Rightarrow> bool" where
  "is_digit c \<longleftrightarrow> c \<in> set ''0123456789''"

section \<open>JavaScript numbers\<close>

text \<open>
  A JavaScript number is \<open>NaN\<close>, an infinity, or a finite value. A finite double is
  represented by the real number it denotes: rounding to 53 bits, overflow to an infinity
  and the sign of zero are not part of the model.
\<close>

datatype jsnum = NaN | Finite real | PosInfinity | NegInfinity

text \<open>\<open>Math.abs(x)\<close>.\<close>

fun js_abs :: "jsnum \<Rightarrow> jsnum" where
  "js_abs NaN = NaN"
| "js_abs (Finite x) = Finite \<bar>x\<bar>"
| "js_abs PosInfinity = PosInfinity"
| "js_abs NegInfinity = PosInfinity"

text \<open>\<open>x >= 0\<close>, which is false for \<open>NaN\<close>.\<close>

fun js_ge_zero :: "jsnum \<Rightarrow> bool" where
  "js_ge_zero NaN = False"
| "js_ge_zero (Finite x) = (0 \<le> x)"
| "js_ge_zero PosInfinity = True"
| "js_ge_zero NegInfinity = False"

text \<open>\<open>x < 0\<close>, also false for \<open>NaN\<close>.\<close>

fun js_lt_zero :: "jsnum \<Rightarrow> bool" where
  "js_lt_zero NaN = False"
| "js_lt_zero (Finite x) = (x < 0)"
| "js_lt_zero PosInfinity = False"
| "js_lt_zero NegInfinity = True"

text \<open>\<open>x * c\<close> and \<open>x / c\<close> for a finite constant \<open>c > 0\<close>.\<close>

fun js_times :: "jsnum \<Rightarrow> real \<Rightarrow> jsnum" where
  "js_times NaN c = NaN"
| "js_times (Finite x) c = Finite (x * c)"
| "js_times PosInfinity c = PosInfinity"
| "js_times NegInfinity c = NegInfinity"

fun js_divide :: "jsnum \<Rightarrow> real \<Rightarrow> jsnum" where
  "js_divide NaN c = NaN"
| "js_divide (Finite x) c = Finite (x / c)"
| "js_divide PosInfinity c = PosInfinity"
| "js_divide NegInfinity c = NegInfinity"

subsection \<open>parseFloat\<close>

definition digit_value :: "char \<Rightarrow> nat" where
  "digit_value c =
     (case map_of (zip ''0123456789'' [0, 1, 2, 3, 4, 5, 6, 7, 8, 9]) c of
        Some n \<Rightarrow> n
      | None \<Rightarrow> 0)"

definition digits_value :: "string \<Rightarrow> nat" where
  "digits_value ds = foldl (\<lambda>n c. 10 * n + digit_value c) 0 ds"

text \<open>
  The exponent part \<open>e\<close>, \<open>e+\<close> or \<open>e-\<close> followed by at least one digit; anything else
  is not an exponent and is left unread.
\<close>

definition exponent_part :: "string \<Rightarrow> int" where
  "exponent_part s =
     (if s \<noteq> [] \<and> (hd s = CHR ''e'' \<or> hd s = CHR ''E'') then
        (let t = tl s;
             neg = (t \<noteq> [] \<and> hd t = CHR ''-'');
             u = (if t \<noteq> [] \<and> (hd t = CHR ''-'' \<or> hd t = CHR ''+'') then tl t else t);
             ds = takeWhile is_digit u
         in if ds = [] then 0
            else if neg then - int (digits_value ds) else int (digits_value ds))
      else 0)"

definition scale10 :: "nat \<Rightarrow> int \<Rightarrow> real" where
  "scale10 m e = (if 0 \<le> e then real m * 10 ^ nat e else real m / 10 ^ nat (- e))"

text \<open>
  The unsigned part of a decimal literal: \<open>Infinity\<close>, or digits with an optional
  fraction and exponent. At least one digit is needed before or after the dot.
\<close>

definition unsigned_literal :: "string \<Rightarrow> jsnum" where
  "unsigned_literal s =
     (if startsWith s ''Infinity'' then PosInfinity
      else
        (let ip = takeWhile is_digit s;
             r1 = dropWhile is_digit s;
             dot = (r1 \<noteq> [] \<and> hd r1 = CHR ''.'');
             fp = (if dot then takeWhile is_digit (tl r1) else []);
             r2 = (if dot then dropWhile is_digit (tl r1) else r1)
         in if ip = [] \<and> fp = [] then NaN
            else Finite (scale10 (digits_value (ip @ fp)) (exponent_part r2 - int (length fp)))))"

text \<open>
  \<open>parseFloat(s)\<close>: leading white space is skipped, then the longest prefix that is a
  decimal literal is read; \<open>NaN\<close> when there is none.
\<close>

definition parseFloat :: "string \<Rightarrow> jsnum" where
  "parseFloat s =
     (let t = dropWhile is_space s in
      if t \<noteq> [] \<and> hd t = CHR ''-'' then
        (case unsigned_literal (tl t) of
           NaN \<Rightarrow> NaN
         | Finite x \<Rightarrow> Finite (- x)
         | PosInfinity \<Rightarrow> NegInfinity
         | NegInfinity \<Rightarrow> PosInfinity)
      else if t \<noteq> [] \<and> hd t = CHR ''+'' then unsigned_literal (tl t)
      else unsigned_literal t)"

section \<open>Values, the output model and the collaborators\<close>

text \<open>
  The values a CSV cell can hold after the cast, and the boxed numbers (\<open>new Number(x)\<close>)
  that \<open>isNumberObject\<close> of \<open>util/types\<close> recognises: it is true for a boxed number
  and false for every primitive.
\<close>

datatype jsvalue = Undefined | Str string | Number jsnum | NumberObject jsnum

definition isNumberObject :: "jsvalue \<Rightarrow> bool" where
  "isNumberObject v = (case v of NumberObject x \<Rightarrow> True | _ \<Rightarrow> False)"

text \<open>
  Modelled from the spec: the enumeration \<open>GhostfolioOrderType\<close>
  (\<open>models/ghostfolioOrderType\<close> is not among the sources). Its members are the closed
  set of activity kinds of the specification; indexing it with any other key is
  \<open>undefined\<close>, here \<open>None\<close>.
\<close>

datatype order_type = BUY | SELL | DIVIDEND | INTEREST | FX

definition GhostfolioOrderType :: "string \<Rightarrow> order_type option" where
  "GhostfolioOrderType key =
     map_of [(''buy'', BUY), (''sell'', SELL), (''dividend'', DIVIDEND),
             (''interest'', INTEREST), (''fx'', FX)] key"

text \<open>
  One entry of \<open>result.activities\<close>, with the keys of the object literals the converters
  push. A key that can be \<open>undefined\<close> is an option.
\<close>

record activity =
  a_accountId :: "string option"
  a_comment :: string
  a_fee :: jsnum
  a_quantity :: jsnum
  a_type :: "order_type option"
  a_unitPrice :: jsnum
  a_currency :: string
  a_dataSource :: string
  a_date :: string
  a_symbol :: "string option"

record GhostfolioExport =
  meta_date :: string
  meta_version :: string
  activities :: "activity list"

text \<open>
  What the converters read from their surroundings: the two environment variables, the
  clock (\<open>new Date()\<close>), and the two date formatters of the \<open>dayjs\<close> library, which
  are parameters of the model.
\<close>

record host =
  GHOSTFOLIO_ACCOUNT_ID :: "string option"
  GHOSTFOLIO_BITPANDA_STAKING_REWARD_ASSET_ID :: "string option"
  new_Date :: string
  dayjs_tz_zurich_hour15 :: "string \<Rightarrow> string"
  dayjs_format :: "string \<Rightarrow> string"

text \<open>
  The security service. \<open>getSecurity(isin, symbol, name, expectedCurrency, progress)\<close>
  throws, returns nothing, or returns a record with a symbol and a currency. Each record
  of a run makes at most one call, so a service with a memory is a function of the index of
  the record being processed and of the arguments.
\<close>

record query =
  q_isin :: "string option"
  q_symbol :: "string option"
  q_name :: "string option"
  q_currency :: "string option"

record YahooFinanceRecord =
  s_symbol :: "string option"
  s_currency :: "string option"

datatype lookup = Throws string | Nothing | Security YahooFinanceRecord

type_synonym resolver = "nat \<Rightarrow> query \<Rightarrow> lookup"

text \<open>
  What a run leaves behind besides its result: the calls of the security service and the
  messages of \<open>logQueryError\<close>, \<open>progress.log\<close> and \<open>console.log\<close>, in order.
\<close>

datatype event =
    Lookup nat query
  | LogQueryError string nat
  | LogNoResult string string string
  | LogMetalNoSymbol string string
  | LogMetalError string string

datatype csv_error = Invalid_Record_Length nat nat nat

datatype failure = ParsingFailed "csv_error option" | Thrown string

datatype outcome = SuccessCallback GhostfolioExport | ErrorCallback failure

record run_state =
  pushed :: "activity list"
  trace :: "event list"

datatype flow = Next run_state | Stop failure run_state

text \<open>The envelope a run delivers through the success callback, if it does.\<close>

definition delivered :: "outcome \<Rightarrow> GhostfolioExport option" where
  "delivered out = (case out of SuccessCallback e \<Rightarrow> Some e | ErrorCallback f \<Rightarrow> None)"

section \<open>The CSV tokenizer\<close>

text \<open>
  The part of \<open>csv-parse\<close> the converters use, for text whose records end in a line
  feed and whose fields hold no quote characters: records start at line \<open>fromLine\<close>
  (lines count from 1), an empty last line is no record, every field goes through the cast
  together with the name of its column, and a record whose number of fields differs from
  the number of columns is an error.
\<close>

type_synonym js_object = "(string \<times> jsvalue) list"

fun csv_records ::
  "string list \<Rightarrow> (string \<Rightarrow> string \<Rightarrow> jsvalue) \<Rightarrow> nat \<Rightarrow> string list \<Rightarrow> csv_error + js_object list" where
  "csv_records columns cast line [] = Inr []"
| "csv_records columns cast line (l # ls) =
     (let fields = split_on CHR '','' l in
      if length fields \<noteq> length columns
      then Inl (Invalid_Record_Length (length columns) (length fields) line)
      else (case csv_records columns cast (Suc line) ls of
              Inl e \<Rightarrow> Inl e
            | Inr rs \<Rightarrow> Inr (zip columns (map (\<lambda>(c, v). cast c v) (zip columns fields)) # rs)))"

definition record_lines :: "nat \<Rightarrow> string \<Rightarrow> string list" where
  "record_lines fromLine text =
     (let ls = drop (fromLine - 1) (split_on newline text)
      in if ls \<noteq> [] \<and> last ls = [] then butlast ls else ls)"

definition csv_parse ::
  "nat \<Rightarrow> string list \<Rightarrow> (string \<Rightarrow> string \<Rightarrow> jsvalue) \<Rightarrow> string \<Rightarrow> csv_error + js_object list" where
  "csv_parse fromLine columns cast text =
     csv_records columns cast fromLine (record_lines fromLine text)"

text \<open>Reading a key of a parsed record at the type its class declares.\<close>

definition string_field :: "js_object \<Rightarrow> string \<Rightarrow> string" where
  "string_field obj k = (case map_of obj k of Some (Str s) \<Rightarrow> s | _ \<Rightarrow> [])"

definition number_field :: "js_object \<Rightarrow> string \<Rightarrow> jsnum" where
  "number_field obj k = (case map_of obj k of Some (Number x) \<Rightarrow> x | _ \<Rightarrow> NaN)"

section \<open>The TrueWealth converter\<close>

record TrueWealthRecord =
  date :: string
  type :: string
  currency :: string
  price :: jsnum
  shares :: jsnum
  amount :: jsnum
  taxes :: jsnum
  fees :: jsnum
  isin :: string
  "value" :: jsnum
  valueCurrency :: string
  securityName :: string

text \<open>The \<open>cast\<close> option of \<open>TrueWealthConverter.processFileContents\<close>.\<close>

definition truewealth_cast :: "string \<Rightarrow> string \<Rightarrow> jsvalue" where
  "truewealth_cast column columnValue =
     (let action = toLowerCase columnValue in
      if column = ''type'' \<and> indexOf_found action ''buy'' then Str ''buy''
      else if column = ''type'' \<and> indexOf_found action ''sell'' then Str ''sell''
      else if column = ''type'' \<and> indexOf_found action ''dividend'' then Str ''dividend''
      else if column = ''type'' \<and> indexOf_found action ''fx'' then Str ''fx''
      else if column = ''price'' \<or> column = ''shares'' \<or> column = ''amount'' \<or>
              column = ''taxes'' \<or> column = ''fees'' \<or> column = ''value''
      then Number (parseFloat columnValue)
      else Str columnValue)"

text \<open>
  A parsed record read as a \<open>TrueWealthRecord\<close>. The columns come from the header line
  of the file and are taken to hold every key of the class.
\<close>

definition truewealth_record :: "js_object \<Rightarrow> TrueWealthRecord" where
  "truewealth_record obj =
     \<lparr>date = string_field obj ''date'',
      type = string_field obj ''type'',
      currency = string_field obj ''currency'',
      price = number_field obj ''price'',
      shares = number_field obj ''shares'',
      amount = number_field obj ''amount'',
      taxes = number_field obj ''taxes'',
      fees = number_field obj ''fees'',
      isin = string_field obj ''isin'',
      value = number_field obj ''value'',
      valueCurrency = string_field obj ''valueCurrency'',
      securityName = string_field obj ''securityName''\<rparr>"

definition truewealth_isIgnoredRecord :: "TrueWealthRecord \<Rightarrow> bool" where
  "truewealth_isIgnoredRecord record =
     list_ex (\<lambda>t. indexOf_found (toLowerCase (type record)) t) [''fx'']"

text \<open>The arguments of the \<open>getSecurity\<close> call and \<open>record.isin || record.securityName\<close>.\<close>

definition truewealth_query :: "TrueWealthRecord \<Rightarrow> query" where
  "truewealth_query record =
     \<lparr>q_isin = Some (isin record), q_symbol = None,
      q_name = Some (securityName record), q_currency = Some (currency record)\<rparr>"

definition truewealth_identifier :: "TrueWealthRecord \<Rightarrow> string" where
  "truewealth_identifier record = (if isin record \<noteq> [] then isin record else securityName record)"

text \<open>The object pushed for a record whose security was found.\<close>

definition truewealth_activity :: "host \<Rightarrow> TrueWealthRecord \<Rightarrow> YahooFinanceRecord \<Rightarrow> activity" where
  "truewealth_activity h record security =
     (let fees = (if isNumberObject (Number (fees record)) = False then Finite 0 else fees record);
          numberOfShares = (if type record = ''dividend'' then Finite 1 else js_abs (shares record));
          assetPrice = js_abs (price record)
      in \<lparr>a_accountId = GHOSTFOLIO_ACCOUNT_ID h,
          a_comment = [],
          a_fee = fees,
          a_quantity = numberOfShares,
          a_type = GhostfolioOrderType (type record),
          a_unitPrice = assetPrice,
          a_currency = (case s_currency security of Some c \<Rightarrow> c | None \<Rightarrow> currency record),
          a_dataSource = ''YAHOO'',
          a_date = dayjs_tz_zurich_hour15 h (date record),
          a_symbol = s_symbol security\<rparr>)"

text \<open>One turn of the loop over the records, for the record at index \<open>idx\<close>.\<close>

definition truewealth_step :: "host \<Rightarrow> resolver \<Rightarrow> nat \<Rightarrow> TrueWealthRecord \<Rightarrow> run_state \<Rightarrow> flow" where
  "truewealth_step h getSecurity idx record st =
     (if truewealth_isIgnoredRecord record then Next st
      else
        (let called = st\<lparr>trace := trace st @ [Lookup idx (truewealth_query record)]\<rparr> in
         case getSecurity idx (truewealth_query record) of
           Throws err \<Rightarrow>
             Stop (Thrown err)
               (called\<lparr>trace := trace called @ [LogQueryError (truewealth_identifier record) (idx + 2)]\<rparr>)
         | Nothing \<Rightarrow>
             Next (called\<lparr>trace := trace called @
                     [LogNoResult (type record) (truewealth_identifier record) (currency record)]\<rparr>)
         | Security security \<Rightarrow>
             Next (called\<lparr>pushed := pushed called @ [truewealth_activity h record security]\<rparr>)))"

fun truewealth_loop ::
  "host \<Rightarrow> resolver \<Rightarrow> nat \<Rightarrow> TrueWealthRecord list \<Rightarrow> run_state \<Rightarrow> flow" where
  "truewealth_loop h getSecurity idx [] st = Next st"
| "truewealth_loop h getSecurity idx (record # records) st =
     (case truewealth_step h getSecurity idx record st of
        Stop err st' \<Rightarrow> Stop err st'
      | Next st' \<Rightarrow> truewealth_loop h getSecurity (Suc idx) records st')"

text \<open>The callback given to \<open>parse\<close>: \<open>(err, records) => ...\<close>.\<close>

definition truewealth_callback ::
  "host \<Rightarrow> resolver \<Rightarrow> csv_error option \<Rightarrow> TrueWealthRecord list option \<Rightarrow> outcome \<times> event list" where
  "truewealth_callback h getSecurity err records =
     (if err \<noteq> None \<or> records = None \<or> records = Some [] then (ErrorCallback (ParsingFailed err), [])
      else
        (case truewealth_loop h getSecurity 0 (the records) \<lparr>pushed = [], trace = []\<rparr> of
           Stop e st \<Rightarrow> (ErrorCallback e, trace st)
         | Next st \<Rightarrow>
             (SuccessCallback \<lparr>meta_date = new_Date h, meta_version = ''v0'', activities = pushed st\<rparr>,
              trace st)))"

text \<open>
  The text handed to \<open>parse\<close> is the input itself, and records start at line 2. The
  columns are those of \<open>AbstractConverter.processHeaders\<close>, which is not among the
  sources: they are a parameter here.
\<close>

definition truewealth_parser_input :: "string \<Rightarrow> string" where
  "truewealth_parser_input input = input"

definition truewealth_processFileContents ::
  "host \<Rightarrow> resolver \<Rightarrow> string list \<Rightarrow> string \<Rightarrow> outcome \<times> event list" where
  "truewealth_processFileContents h getSecurity columns input =
     (case csv_parse 2 columns truewealth_cast (truewealth_parser_input input) of
        Inl err \<Rightarrow> truewealth_callback h getSecurity (Some err) None
      | Inr objs \<Rightarrow> truewealth_callback h getSecurity None (Some (map truewealth_record objs)))"

section \<open>The Bitpanda converter\<close>

record BitpandaRecord =
  transactionId :: string
  timestamp :: string
  transactionType :: string
  inOut :: string
  amountFiat :: jsnum
  fiat :: string
  amountAsset :: jsnum
  asset :: string
  assetMarketPrice :: jsnum
  assetMarketPriceCurrency :: string
  assetClass :: string
  productId :: string
  fee :: jsnum
  feeAsset :: string
  feePercent :: jsnum
  spread :: jsnum
  spreadCurrency :: string
  taxFiat :: jsnum

definition gramsToTroyOunces :: "jsnum \<Rightarrow> jsnum" where
  "gramsToTroyOunces grams = js_divide grams 31.1034768"

text \<open>
  The rename table is an object literal with the one key \<open>POL\<close>. Indexing it,
  \<open>mapping[asset]\<close>, answers for that key and, as for every object literal, for the
  members inherited from \<open>Object.prototype\<close>: for their names the value is a function
  (an object for \<open>__proto__\<close>) and not a string. Each inherited member is listed with
  the text a template literal makes of it on the engine of Node.
\<close>

definition Object_prototype :: "(string \<times> string) list" where
  "Object_prototype =
     [(''constructor'', ''function Object() { [native code] }''),
      (''__defineGetter__'', ''function __defineGetter__() { [native code] }''),
      (''__defineSetter__'', ''function __defineSetter__() { [native code] }''),
      (''hasOwnProperty'', ''function hasOwnProperty() { [native code] }''),
      (''__lookupGetter__'', ''function __lookupGetter__() { [native code] }''),
      (''__lookupSetter__'', ''function __lookupSetter__() { [native code] }''),
      (''isPrototypeOf'', ''function isPrototypeOf() { [native code] }''),
      (''propertyIsEnumerable'', ''function propertyIsEnumerable() { [native code] }''),
      (''toString'', ''function toString() { [native code] }''),
      (''valueOf'', ''function valueOf() { [native code] }''),
      (''__proto__'', ''[object Object]''),
      (''toLocaleString'', ''function toLocaleString() { [native code] }'')]"

text \<open>What \<open>mapping[asset] || asset\<close> can be: a string, or an inherited member.\<close>

datatype property = Text string | Inherited string

definition mapBitpandaSymbolToYahoo :: "string \<Rightarrow> property" where
  "mapBitpandaSymbolToYahoo a =
     (let mapping = [''POL'' \<mapsto> ''MATIC''] in
      case mapping a of
        Some y \<Rightarrow> (if y \<noteq> [] then Text y else Text a)
      | None \<Rightarrow> (if a \<in> set (map fst Object_prototype) then Inherited a else Text a))"

text \<open>The text of such a value inside a template literal.\<close>

definition template_text :: "property \<Rightarrow> string" where
  "template_text v =
     (case v of
        Text s \<Rightarrow> s
      | Inherited k \<Rightarrow> (case map_of Object_prototype k of Some t \<Rightarrow> t | None \<Rightarrow> []))"

definition bitpanda_processHeaders :: "string list" where
  "bitpanda_processHeaders =
     [''transactionId'', ''timestamp'', ''transactionType'', ''inOut'', ''amountFiat'', ''fiat'',
      ''amountAsset'', ''asset'', ''assetMarketPrice'', ''assetMarketPriceCurrency'', ''assetClass'',
      ''productId'', ''fee'', ''feeAsset'', ''feePercent'', ''spread'', ''spreadCurrency'', ''taxFiat'']"

definition headerLineIdx :: nat where
  "headerLineIdx = 7"

definition bitpanda_fromLine :: nat where
  "bitpanda_fromLine = 8"

text \<open>The body of the padding loop for one line, and the loop over the lines after the header.\<close>

definition pad_line :: "nat \<Rightarrow> string \<Rightarrow> string" where
  "pad_line expectedColumns l =
     (if blank l then l
      else
        (let cols = split_on CHR '','' l in
         if length cols < expectedColumns
         then l @ concat (replicate (expectedColumns - length cols) '',-'')
         else l))"

definition pad_lines :: "string list \<Rightarrow> string list" where
  "pad_lines lines =
     take (headerLineIdx + 1) lines @
     map (pad_line (length bitpanda_processHeaders)) (drop (headerLineIdx + 1) lines)"

definition processedInput :: "string \<Rightarrow> string" where
  "processedInput input = join_with newline (pad_lines (split_lines input))"

definition floatFields :: "string list" where
  "floatFields =
     [''amountFiat'', ''amountAsset'', ''assetMarketPrice'', ''fee'', ''feePercent'', ''spread'', ''taxFiat'']"

text \<open>The replacement of \<open>/[^\d.-]/g\<close> by the empty string.\<close>

definition strip_non_numeric :: "string \<Rightarrow> string" where
  "strip_non_numeric s = filter (\<lambda>c. is_digit c \<or> c = CHR ''.'' \<or> c = CHR ''-'') s"

text \<open>The \<open>cast\<close> option of \<open>BitpandaConverter.processFileContents\<close>.\<close>

definition bitpanda_cast :: "string \<Rightarrow> string \<Rightarrow> jsvalue" where
  "bitpanda_cast column columnValue =
     (if column \<in> set floatFields then
        (if columnValue = [] \<or> columnValue = ''-'' then Number (Finite 0)
         else Number (js_abs (parseFloat (strip_non_numeric columnValue))))
      else Str columnValue)"

definition bitpanda_record :: "js_object \<Rightarrow> BitpandaRecord" where
  "bitpanda_record obj =
     \<lparr>transactionId = string_field obj ''transactionId'',
      timestamp = string_field obj ''timestamp'',
      transactionType = string_field obj ''transactionType'',
      inOut = string_field obj ''inOut'',
      amountFiat = number_field obj ''amountFiat'',
      fiat = string_field obj ''fiat'',
      amountAsset = number_field obj ''amountAsset'',
      asset = string_field obj ''asset'',
      assetMarketPrice = number_field obj ''assetMarketPrice'',
      assetMarketPriceCurrency = string_field obj ''assetMarketPriceCurrency'',
      assetClass = string_field obj ''assetClass'',
      productId = string_field obj ''productId'',
      fee = number_field obj ''fee'',
      feeAsset = string_field obj ''feeAsset'',
      feePercent = number_field obj ''feePercent'',
      spread = number_field obj ''spread'',
      spreadCurrency = string_field obj ''spreadCurrency'',
      taxFiat = number_field obj ''taxFiat''\<rparr>"

definition bitpanda_isIgnoredRecord :: "BitpandaRecord \<Rightarrow> bool" where
  "bitpanda_isIgnoredRecord record \<longleftrightarrow>
     assetClass record = [] \<or> toLowerCase (assetClass record) = ''fiat''"

text \<open>The type of a record: a key of \<open>GhostfolioOrderType\<close>, or \<open>undefined\<close>.\<close>

definition bitpanda_type :: "BitpandaRecord \<Rightarrow> string option" where
  "bitpanda_type record =
     (if toLowerCase (transactionType record) = ''reward'' then Some ''interest''
      else if startsWith (toLowerCase (transactionType record)) ''transfer''
      then (if toLowerCase (inOut record) = ''incoming'' then Some ''buy'' else Some ''sell'')
      else if toLowerCase (transactionType record) = ''buy'' then Some ''buy''
      else if toLowerCase (transactionType record) = ''sell'' then Some ''sell''
      else None)"

definition metal_query :: "BitpandaRecord \<Rightarrow> query" where
  "metal_query record =
     \<lparr>q_isin = None, q_symbol = None, q_name = Some (asset record), q_currency = None\<rparr>"

text \<open>The symbol of a metal: the lookup inside its own \<open>try\<close> and \<open>catch\<close>.\<close>

definition metal_symbol :: "resolver \<Rightarrow> nat \<Rightarrow> BitpandaRecord \<Rightarrow> string \<times> event list" where
  "metal_symbol getSecurity idx record =
     (case getSecurity idx (metal_query record) of
        Security security \<Rightarrow>
          (case s_symbol security of
             Some s \<Rightarrow>
               (if s \<noteq> [] then (s, [Lookup idx (metal_query record)])
                else (asset record,
                      [Lookup idx (metal_query record),
                       LogMetalNoSymbol (asset record) (assetMarketPriceCurrency record)]))
           | None \<Rightarrow>
               (asset record,
                [Lookup idx (metal_query record),
                 LogMetalNoSymbol (asset record) (assetMarketPriceCurrency record)]))
      | Nothing \<Rightarrow>
          (asset record,
           [Lookup idx (metal_query record),
            LogMetalNoSymbol (asset record) (assetMarketPriceCurrency record)])
      | Throws err \<Rightarrow>
          (asset record, [Lookup idx (metal_query record), LogMetalError (asset record) err]))"

text \<open>Symbol, quantity and unit price by asset class, with what the lookup left behind.\<close>

definition bitpanda_asset ::
  "resolver \<Rightarrow> nat \<Rightarrow> BitpandaRecord \<Rightarrow> (string \<times> jsnum \<times> jsnum) \<times> event list" where
  "bitpanda_asset getSecurity idx record =
     (let assetClass = (if assetClass record \<noteq> [] then toLowerCase (assetClass record) else []);
          quantity = amountAsset record;
          unitPrice = assetMarketPrice record
      in if assetClass = ''cryptocurrency''
         then ((template_text (mapBitpandaSymbolToYahoo (asset record)) @ ''USD'', quantity, unitPrice),
               [])
         else if assetClass = ''stock (derivative)''
         then ((asset record, quantity, unitPrice), [])
         else if assetClass = ''metal''
         then ((fst (metal_symbol getSecurity idx record),
                gramsToTroyOunces quantity, js_times unitPrice 31.1034768),
               snd (metal_symbol getSecurity idx record))
         else ((asset record, quantity, unitPrice), []))"

text \<open>The activities pushed for a record of type \<open>ty\<close>.\<close>

definition bitpanda_activities ::
  "host \<Rightarrow> BitpandaRecord \<Rightarrow> string \<Rightarrow> string \<times> jsnum \<times> jsnum \<Rightarrow> activity list" where
  "bitpanda_activities h record ty sqp =
     (let symbol = fst sqp; quantity = fst (snd sqp); unitPrice = snd (snd sqp);
          date = dayjs_format h (timestamp record)
      in if ty = ''interest'' then
           [\<lparr>a_accountId = GHOSTFOLIO_ACCOUNT_ID h,
             a_comment = ''Staking reward '' @ asset record,
             a_fee = fee record,
             a_quantity = Finite 1,
             a_type = GhostfolioOrderType ty,
             a_unitPrice = amountFiat record,
             a_currency = fiat record,
             a_dataSource = ''MANUAL'',
             a_date = date,
             a_symbol = GHOSTFOLIO_BITPANDA_STAKING_REWARD_ASSET_ID h\<rparr>,
            \<lparr>a_accountId = GHOSTFOLIO_ACCOUNT_ID h,
             a_comment = [],
             a_fee = Finite 0,
             a_quantity = quantity,
             a_type = GhostfolioOrderType ''buy'',
             a_unitPrice = unitPrice,
             a_currency = (if assetMarketPriceCurrency record \<noteq> []
                           then assetMarketPriceCurrency record else fiat record),
             a_dataSource = ''YAHOO'',
             a_date = date,
             a_symbol = Some symbol\<rparr>]
         else
           [\<lparr>a_accountId = GHOSTFOLIO_ACCOUNT_ID h,
             a_comment = [],
             a_fee = fee record,
             a_quantity = quantity,
             a_type = GhostfolioOrderType ty,
             a_unitPrice = unitPrice,
             a_currency = (if assetMarketPriceCurrency record \<noteq> []
                           then assetMarketPriceCurrency record else fiat record),
             a_dataSource = ''YAHOO'',
             a_date = date,
             a_symbol = Some symbol\<rparr>])"

text \<open>
  One turn of the loop over the records. No turn ends the run: the only call that can
  throw is the metal lookup, and its error is caught on the spot.
\<close>

definition bitpanda_step :: "host \<Rightarrow> resolver \<Rightarrow> nat \<Rightarrow> BitpandaRecord \<Rightarrow> run_state \<Rightarrow> run_state" where
  "bitpanda_step h getSecurity idx record st =
     (if bitpanda_isIgnoredRecord record then st
      else
        (case bitpanda_type record of
           None \<Rightarrow> st
         | Some ty \<Rightarrow>
             \<lparr>pushed = pushed st @
                 bitpanda_activities h record ty (fst (bitpanda_asset getSecurity idx record)),
              trace = trace st @ snd (bitpanda_asset getSecurity idx record)\<rparr>))"

fun bitpanda_loop ::
  "host \<Rightarrow> resolver \<Rightarrow> nat \<Rightarrow> BitpandaRecord list \<Rightarrow> run_state \<Rightarrow> run_state" where
  "bitpanda_loop h getSecurity idx [] st = st"
| "bitpanda_loop h getSecurity idx (record # records) st =
     bitpanda_loop h getSecurity (Suc idx) records (bitpanda_step h getSecurity idx record st)"

definition bitpanda_callback ::
  "host \<Rightarrow> resolver \<Rightarrow> csv_error option \<Rightarrow> BitpandaRecord list option \<Rightarrow> outcome \<times> event list" where
  "bitpanda_callback h getSecurity err records =
     (if err \<noteq> None \<or> records = None \<or> records = Some [] then (ErrorCallback (ParsingFailed err), [])
      else
        (let st = bitpanda_loop h getSecurity 0 (the records) \<lparr>pushed = [], trace = []\<rparr>
         in (SuccessCallback \<lparr>meta_date = new_Date h, meta_version = ''v0'', activities = pushed st\<rparr>,
             trace st)))"

text \<open>The records \<open>parse\<close> builds from the padded text.\<close>

definition bitpanda_parse :: "string \<Rightarrow> csv_error + BitpandaRecord list" where
  "bitpanda_parse input =
     (case csv_parse bitpanda_fromLine bitpanda_processHeaders bitpanda_cast (processedInput input) of
        Inl err \<Rightarrow> Inl err
      | Inr objs \<Rightarrow> Inr (map bitpanda_record objs))"

definition bitpanda_processFileContents :: "host \<Rightarrow> resolver \<Rightarrow> string \<Rightarrow> outcome \<times> event list" where
  "bitpanda_processFileContents h getSecurity input =
     (case bitpanda_parse input of
        Inl err \<Rightarrow> bitpanda_callback h getSecurity (Some err) None
      | Inr records \<Rightarrow> bitpanda_callback h getSecurity None (Some records))"

section \<open>Predicates of the claims and example inputs\<close>

definition non_negative_or_NaN :: "jsnum \<Rightarrow> bool" where
  "non_negative_or_NaN x \<longleftrightarrow> js_ge_zero x \<or> x = NaN"

definition activity_numbers_ok :: "activity \<Rightarrow> bool" where
  "activity_numbers_ok a \<longleftrightarrow>
     non_negative_or_NaN (a_quantity a) \<and> non_negative_or_NaN (a_unitPrice a) \<and>
     non_negative_or_NaN (a_fee a)"

definition bitpanda_numbers_ok :: "BitpandaRecord \<Rightarrow> bool" where
  "bitpanda_numbers_ok r \<longleftrightarrow>
     non_negative_or_NaN (amountFiat r) \<and> non_negative_or_NaN (amountAsset r) \<and>
     non_negative_or_NaN (assetMarketPrice r) \<and> non_negative_or_NaN (fee r)"

text \<open>Inputs on which the theorems are tried.\<close>

definition example_host :: host where
  "example_host =
     \<lparr>GHOSTFOLIO_ACCOUNT_ID = Some ''account'',
      GHOSTFOLIO_BITPANDA_STAKING_REWARD_ASSET_ID = Some ''reward-asset'',
      new_Date = ''2024-02-01T00:00:00Z'',
      dayjs_tz_zurich_hour15 = (\<lambda>d. d @ ''T15:00:00+01:00''),
      dayjs_format = (\<lambda>t. t)\<rparr>"

definition resolver_found :: resolver where
  "resolver_found = (\<lambda>idx q. Security \<lparr>s_symbol = Some ''ABC'', s_currency = Some ''CHF''\<rparr>)"

definition resolver_throws :: resolver where
  "resolver_throws = (\<lambda>idx q. Throws ''timeout'')"

definition resolver_nothing :: resolver where
  "resolver_nothing = (\<lambda>idx q. Nothing)"

definition truewealth_columns :: "string list" where
  "truewealth_columns =
     [''date'', ''type'', ''currency'', ''price'', ''shares'', ''amount'', ''taxes'', ''fees'',
      ''isin'', ''value'', ''valueCurrency'', ''securityName'']"

definition truewealth_buy_file :: string where
  "truewealth_buy_file =
     ''date,type,currency,price,shares,amount,taxes,fees,isin,value,valueCurrency,securityName'' @
     newline # ''2024-01-05,Buy,CHF,10,-5,50,0,1.5,CH1,50,CHF,Fund''"

definition truewealth_buy_envelope :: GhostfolioExport where
  "truewealth_buy_envelope =
     \<lparr>meta_date = ''2024-02-01T00:00:00Z'', meta_version = ''v0'',
      activities =
        [\<lparr>a_accountId = Some ''account'', a_comment = [], a_fee = Finite 0, a_quantity = Finite 5,
          a_type = Some BUY, a_unitPrice = Finite 10, a_currency = ''CHF'', a_dataSource = ''YAHOO'',
          a_date = ''2024-01-05T15:00:00+01:00'', a_symbol = Some ''ABC''\<rparr>]\<rparr>"

definition bitpanda_file_lines :: "string list" where
  "bitpanda_file_lines =
     [''Bitpanda'', '''', '''', '''', '''', '''', '''',
      ''Transaction ID,Timestamp,Transaction Type,In/Out,Amount Fiat,Fiat,Amount Asset,Asset,Asset market price,Asset market price currency,Asset class,Product ID,Fee,Fee asset,Fee percent,Spread,Spread Currency,Tax Fiat'',
      ''T1,2024-01-05T10:00:00Z,buy,outgoing,100.00,EUR,0.5,BTC,200.00,EUR,Cryptocurrency,1,1.00,EUR'']"

definition bitpanda_file :: string where
  "bitpanda_file = join_with newline bitpanda_file_lines"

definition bitpanda_file_records :: "BitpandaRecord list" where
  "bitpanda_file_records = [
   \<lparr>transactionId = ''Transaction ID'', timestamp = ''Timestamp'',
         transactionType = ''Transaction Type'', inOut = ''In/Out'',
         amountFiat = NaN, fiat = ''Fiat'', amountAsset = NaN,
         asset = ''Asset'', assetMarketPrice = NaN,
         assetMarketPriceCurrency = ''Asset market price currency'',
         assetClass = ''Asset class'', productId = ''Product ID'',
         fee = NaN, feeAsset = ''Fee asset'', feePercent = NaN,
         spread = NaN, spreadCurrency = ''Spread Currency'', taxFiat = NaN\<rparr>,
      \<lparr>transactionId = ''T1'', timestamp = ''2024-01-05T10:00:00Z'',
         transactionType = ''buy'', inOut = ''outgoing'',
         amountFiat = Finite 100, fiat = ''EUR'',
         amountAsset = Finite (1 / 2), asset = ''BTC'',
         assetMarketPrice = Finite 200, assetMarketPriceCurrency = ''EUR'',
         assetClass = ''Cryptocurrency'', productId = ''1'', fee = Finite 1,
         feeAsset = ''EUR'', feePercent = Finite 0, spread = Finite 0,
         spreadCurrency = ''-'', taxFiat = Finite 0\<rparr>]"

definition bitpanda_file_envelope :: GhostfolioExport where
  "bitpanda_file_envelope =
     \<lparr>meta_date = ''2024-02-01T00:00:00Z'', meta_version = ''v0'',
      activities =
        [\<lparr>a_accountId = Some ''account'', a_comment = [], a_fee = Finite 1,
          a_quantity = Finite (1 / 2), a_type = Some BUY, a_unitPrice = Finite 200,
          a_currency = ''EUR'', a_dataSource = ''YAHOO'', a_date = ''2024-01-05T10:00:00Z'',
          a_symbol = Some ''BTCUSD''\<rparr>]\<rparr>"

text \<open>A TrueWealth file whose only row has an empty shares cell.\<close>

definition truewealth_empty_shares_file :: string where
  "truewealth_empty_shares_file =
     ''date,type,currency,price,shares,amount,taxes,fees,isin,value,valueCurrency,securityName'' @
     newline # ''2024-01-05,Buy,CHF,10,,50,0,1.5,CH1,50,CHF,Fund''"

definition truewealth_empty_shares_activity :: activity where
  "truewealth_empty_shares_activity =
     \<lparr>a_accountId = Some ''account'', a_comment = [], a_fee = Finite 0, a_quantity = NaN,
      a_type = Some BUY, a_unitPrice = Finite 10, a_currency = ''CHF'', a_dataSource = ''YAHOO'',
      a_date = ''2024-01-05T15:00:00+01:00'', a_symbol = Some ''ABC''\<rparr>"

text \<open>A TrueWealth file whose only row is a stock split, a type no rule of the cast matches.\<close>

definition truewealth_split_file :: string where
  "truewealth_split_file =
     ''date,type,currency,price,shares,amount,taxes,fees,isin,value,valueCurrency,securityName'' @
     newline # ''2024-01-05,Split,CHF,10,5,50,0,0,CH1,50,CHF,Fund''"

definition truewealth_split_activity :: activity where
  "truewealth_split_activity =
     \<lparr>a_accountId = Some ''account'', a_comment = [], a_fee = Finite 0, a_quantity = Finite 5,
      a_type = None, a_unitPrice = Finite 10, a_currency = ''CHF'', a_dataSource = ''YAHOO'',
      a_date = ''2024-01-05T15:00:00+01:00'', a_symbol = Some ''ABC''\<rparr>"

text \<open>Two TrueWealth records and a service that throws on the second.\<close>

definition truewealth_two_records :: "TrueWealthRecord list" where
  "truewealth_two_records =
     [\<lparr>date = ''2024-01-05'', type = ''buy'', currency = ''CHF'', price = Finite 10,
       shares = Finite 5, amount = Finite 50, taxes = Finite 0, fees = Finite 0, isin = ''CH1'',
       value = Finite 50, valueCurrency = ''CHF'', securityName = ''Fund''\<rparr>,
      \<lparr>date = ''2024-01-06'', type = ''sell'', currency = ''CHF'', price = Finite 11,
       shares = Finite (- 2), amount = Finite 22, taxes = Finite 0, fees = Finite 0, isin = [],
       value = Finite 22, valueCurrency = ''CHF'', securityName = ''Other Fund''\<rparr>]"

definition resolver_throws_on_second :: resolver where
  "resolver_throws_on_second =
     (\<lambda>idx q. if idx = 1 then Throws ''timeout''
              else Security \<lparr>s_symbol = Some ''ABC'', s_currency = Some ''CHF''\<rparr>)"

text \<open>Bitpanda records as the cast leaves them: a metal bought, and a metal received as reward.\<close>

definition metal_buy_record :: BitpandaRecord where
  "metal_buy_record =
     \<lparr>transactionId = ''T2'', timestamp = ''2024-01-06T10:00:00Z'', transactionType = ''buy'',
      inOut = ''outgoing'', amountFiat = Finite 2, fiat = ''EUR'', amountAsset = Finite 31.1034768,
      asset = ''Gold'', assetMarketPrice = Finite 2, assetMarketPriceCurrency = ''EUR'',
      assetClass = ''Metal'', productId = ''28'', fee = Finite 0, feeAsset = ''-'',
      feePercent = Finite 0, spread = Finite 0, spreadCurrency = ''-'', taxFiat = Finite 0\<rparr>"

definition metal_buy_activity :: activity where
  "metal_buy_activity =
     \<lparr>a_accountId = Some ''account'', a_comment = [], a_fee = Finite 0, a_quantity = Finite 1,
      a_type = Some BUY, a_unitPrice = Finite 62.2069536, a_currency = ''EUR'',
      a_dataSource = ''YAHOO'', a_date = ''2024-01-06T10:00:00Z'', a_symbol = Some ''Gold''\<rparr>"

text \<open>The reward of the specification's scenario, and a metal received as reward.\<close>

definition reward_record :: BitpandaRecord where
  "reward_record =
     \<lparr>transactionId = ''T3'', timestamp = ''2024-01-07T10:00:00Z'', transactionType = ''Reward'',
      inOut = ''incoming'', amountFiat = Finite 5, fiat = ''EUR'', amountAsset = Finite 0.001,
      asset = ''BTC'', assetMarketPrice = Finite 50000, assetMarketPriceCurrency = ''EUR'',
      assetClass = ''Cryptocurrency'', productId = ''1'', fee = Finite 0, feeAsset = ''-'',
      feePercent = Finite 0, spread = Finite 0, spreadCurrency = ''-'', taxFiat = Finite 0\<rparr>"

definition metal_reward_record :: BitpandaRecord where
  "metal_reward_record =
     \<lparr>transactionId = ''T4'', timestamp = ''2024-01-08T10:00:00Z'', transactionType = ''reward'',
      inOut = ''incoming'', amountFiat = Finite 62, fiat = ''EUR'', amountAsset = Finite 31.1034768,
      asset = ''Gold'', assetMarketPrice = Finite 2, assetMarketPriceCurrency = ''EUR'',
      assetClass = ''Metal'', productId = ''28'', fee = Finite 0, feeAsset = ''-'',
      feePercent = Finite 0, spread = Finite 0, spreadCurrency = ''-'', taxFiat = Finite 0\<rparr>"

text \<open>A metal withdrawn: a transaction type no rule matches.\<close>

definition metal_withdrawal_record :: BitpandaRecord where
  "metal_withdrawal_record =
     \<lparr>transactionId = ''T5'', timestamp = ''2024-01-09T10:00:00Z'', transactionType = ''withdrawal'',
      inOut = ''outgoing'', amountFiat = Finite 0, fiat = ''EUR'', amountAsset = Finite 10,
      asset = ''Gold'', assetMarketPrice = Finite 2, assetMarketPriceCurrency = ''EUR'',
      assetClass = ''Metal'', productId = ''28'', fee = Finite 0, feeAsset = ''-'',
      feePercent = Finite 0, spread = Finite 0, spreadCurrency = ''-'', taxFiat = Finite 0\<rparr>"

definition pol_buy_record :: BitpandaRecord where
  "pol_buy_record =
     \<lparr>transactionId = ''T6'', timestamp = ''2024-01-10T10:00:00Z'', transactionType = ''buy'',
      inOut = ''outgoing'', amountFiat = Finite 10, fiat = ''CHF'', amountAsset = Finite 20,
      asset = ''POL'', assetMarketPrice = Finite 0.5, assetMarketPriceCurrency = ''EUR'',
      assetClass = ''Cryptocurrency'', productId = ''5'', fee = Finite 0, feeAsset = ''-'',
      feePercent = Finite 0, spread = Finite 0, spreadCurrency = ''-'', taxFiat = Finite 0\<rparr>"

text \<open>A cryptocurrency whose name is that of a member every object inherits.\<close>

definition constructor_buy_record :: BitpandaRecord where
  "constructor_buy_record =
     \<lparr>transactionId = ''T7'', timestamp = ''2024-01-11T10:00:00Z'', transactionType = ''buy'',
      inOut = ''outgoing'', amountFiat = Finite 10, fiat = ''EUR'', amountAsset = Finite 20,
      asset = ''constructor'', assetMarketPrice = Finite 0.5, assetMarketPriceCurrency = ''EUR'',
      assetClass = ''Cryptocurrency'', productId = ''9'', fee = Finite 0, feeAsset = ''-'',
      feePercent = Finite 0, spread = Finite 0, spreadCurrency = ''-'', taxFiat = Finite 0\<rparr>"

text \<open>A TrueWealth file whose only row has five of the twelve columns.\<close>

definition truewealth_short_row_file :: string where
  "truewealth_short_row_file =
     ''date,type,currency,price,shares,amount,taxes,fees,isin,value,valueCurrency,securityName'' @
     newline # ''2024-01-05,Buy,CHF,10,5''"

text \<open>The activities one turn of the Bitpanda loop has pushed.\<close>

definition appended :: "run_state \<Rightarrow> run_state \<Rightarrow> activity list" where
  "appended st st' = drop (length (pushed st)) (pushed st')"

definition empty_state :: run_state where
  "empty_state = \<lparr>pushed = [], trace = []\<rparr>"

section \<open>Facts about splitting and joining\<close>

lemma split_on_not_Nil: "split_on d s \<noteq> []"
  by (induction s) (auto split: list.splits)

lemma split_on_append_sep: "split_on d (s @ d # t) = split_on d s @ split_on d t"
proof (induction s)
  case Nil
  show ?case by simp
next
  case (Cons c s)
  obtain f fs where "split_on d s = f # fs"
    using split_on_not_Nil [of d s] by (cases "split_on d s") auto
  with Cons show ?case by simp
qed

lemma split_on_no_sep: "d \<notin> set s \<Longrightarrow> split_on d s = [s]"
  by (induction s) auto

lemma split_on_pieces: "l \<in> set (split_on d s) \<Longrightarrow> d \<notin> set l"
proof (induction s arbitrary: l)
  case Nil
  then show ?case by simp
next
  case (Cons c s)
  obtain f fs where fs: "split_on d s = f # fs"
    using split_on_not_Nil [of d s] by (cases "split_on d s") auto
  show ?case
  proof (cases "c = d")
    case True
    with Cons show ?thesis by auto
  next
    case False
    with Cons.prems fs have "l = c # f \<or> l \<in> set fs" by simp
    then show ?thesis
    proof
      assume "l = c # f"
      moreover have "d \<notin> set f" using Cons.IH [of f] fs by simp
      ultimately show ?thesis using False by simp
    next
      assume "l \<in> set fs"
      then show ?thesis using Cons.IH [of l] fs by simp
    qed
  qed
qed

lemma split_on_join:
  "ls \<noteq> [] \<Longrightarrow> \<forall>l\<in>set ls. d \<notin> set l \<Longrightarrow> split_on d (join_with d ls) = ls"
proof (induction d ls rule: join_with.induct)
  case (1 d)
  then show ?case by simp
next
  case (2 d l)
  then show ?case by (simp add: split_on_no_sep)
next
  case (3 d l m ls)
  then show ?case by (simp add: split_on_append_sep split_on_no_sep)
qed

lemma strip_cr_subset: "set (strip_cr l) \<subseteq> set l"
  by (auto simp: strip_cr_def dest: in_set_butlastD)

lemma split_lines_not_Nil: "split_lines s \<noteq> []"
  by (simp add: split_lines_def Let_def)

lemma split_lines_pieces: "l \<in> set (split_lines s) \<Longrightarrow> newline \<notin> set l"
proof -
  assume a: "l \<in> set (split_lines s)"
  let ?ps = "split_on newline s"
  from a have "(\<exists>p\<in>set (butlast ?ps). l = strip_cr p) \<or> l = last ?ps"
    by (auto simp: split_lines_def Let_def)
  then show ?thesis
  proof
    assume "\<exists>p\<in>set (butlast ?ps). l = strip_cr p"
    then obtain p where p: "p \<in> set (butlast ?ps)" "l = strip_cr p" by blast
    from p(1) have "p \<in> set ?ps" by (rule in_set_butlastD)
    then have "newline \<notin> set p" by (rule split_on_pieces)
    with p(2) strip_cr_subset [of p] show ?thesis by auto
  next
    assume "l = last ?ps"
    then have "l \<in> set ?ps" using split_on_not_Nil [of newline s] by simp
    then show ?thesis by (rule split_on_pieces)
  qed
qed

lemma pad_line_no_newline: "newline \<notin> set l \<Longrightarrow> newline \<notin> set (pad_line n l)"
  by (auto simp: pad_line_def Let_def newline_def)

lemma length_pad_lines: "length (pad_lines ls) = length ls"
  by (simp add: pad_lines_def)

lemma pad_lines_pieces: "\<forall>l\<in>set ls. newline \<notin> set l \<Longrightarrow> \<forall>l\<in>set (pad_lines ls). newline \<notin> set l"
  by (auto simp: pad_lines_def pad_line_no_newline dest: in_set_takeD in_set_dropD)

lemma pad_lines_nth_header:
  "i \<le> headerLineIdx \<Longrightarrow> i < length ls \<Longrightarrow> pad_lines ls ! i = ls ! i"
  by (simp add: pad_lines_def nth_append)

lemma pad_lines_nth_data:
  "headerLineIdx < i \<Longrightarrow> i < length ls \<Longrightarrow>
   pad_lines ls ! i = pad_line (length bitpanda_processHeaders) (ls ! i)"
  by (simp add: pad_lines_def nth_append min_def)

lemma tokenizer_lines: "split_on newline (processedInput input) = pad_lines (split_lines input)"
proof -
  have "pad_lines (split_lines input) \<noteq> []"
    using split_lines_not_Nil [of input] length_pad_lines [of "split_lines input"] by auto
  moreover have "\<forall>l\<in>set (pad_lines (split_lines input)). newline \<notin> set l"
    by (rule pad_lines_pieces) (simp add: split_lines_pieces)
  ultimately show ?thesis
    unfolding processedInput_def by (rule split_on_join)
qed

lemma split_on_padding:
  "split_on CHR '','' (l @ concat (replicate k '',-'')) = split_on CHR '','' l @ replicate k ''-''"
proof (induction k arbitrary: l)
  case 0
  show ?case by simp
next
  case (Suc k)
  have "split_on CHR '','' (l @ concat (replicate (Suc k) '',-'')) =
        split_on CHR '','' (l @ CHR '','' # (''-'' @ concat (replicate k '',-'')))"
    by simp
  also have "\<dots> = split_on CHR '','' l @ split_on CHR '','' (''-'' @ concat (replicate k '',-''))"
    by (rule split_on_append_sep)
  also have "\<dots> = split_on CHR '','' l @ (split_on CHR '','' ''-'' @ replicate k ''-'')"
    by (simp only: Suc.IH)
  finally show ?case by simp
qed

lemma split_lines_join:
  assumes "ls \<noteq> []" and "\<forall>l\<in>set ls. newline \<notin> set l"
    and "\<forall>l\<in>set (butlast ls). strip_cr l = l"
  shows "split_lines (join_with newline ls) = ls"
proof -
  have "split_on newline (join_with newline ls) = ls"
    using assms(1,2) by (rule split_on_join)
  moreover have "map strip_cr (butlast ls) = butlast ls"
    using assms(3) by (simp add: map_idI)
  ultimately show ?thesis
    using assms(1) by (simp add: split_lines_def)
qed

lemma in_set_butlast_not_last: "x \<in> set xs \<Longrightarrow> x \<noteq> last xs \<Longrightarrow> x \<in> set (butlast xs)"
proof -
  assume x: "x \<in> set xs" and n: "x \<noteq> last xs"
  from x have "xs \<noteq> []" by auto
  then have "set (butlast xs @ [last xs]) = set xs"
    by simp
  then have "set xs = set (butlast xs) \<union> {last xs}"
    by (simp only: set_append list.set Un_insert_right Un_empty_right)
  with x n show ?thesis by auto
qed

lemma butlast_keeps_head: "2 \<le> length xs \<Longrightarrow> butlast xs \<noteq> [] \<and> hd (butlast xs) = hd xs"
proof (cases xs)
  case Nil
  assume "2 \<le> length xs"
  with Nil show ?thesis by simp
next
  case (Cons x ys)
  assume "2 \<le> length xs"
  with Cons have "ys \<noteq> []" by auto
  with Cons show ?thesis by simp
qed

lemma record_lines_member:
  assumes "fromLine - 1 \<le> i" and "i < length (split_on newline text)"
    and "split_on newline text ! i \<noteq> []"
  shows "split_on newline text ! i \<in> set (record_lines fromLine text)"
proof -
  let ?ls = "drop (fromLine - 1) (split_on newline text)"
  from assms(1,2) have "i - (fromLine - 1) < length ?ls" by simp
  then have "?ls ! (i - (fromLine - 1)) \<in> set ?ls" by (rule nth_mem)
  moreover from assms(1,2) have "?ls ! (i - (fromLine - 1)) = split_on newline text ! i"
    by simp
  ultimately have m: "split_on newline text ! i \<in> set ?ls" by simp
  show ?thesis
  proof (cases "?ls \<noteq> [] \<and> last ?ls = []")
    case True
    with m assms(3) have "split_on newline text ! i \<in> set (butlast ?ls)"
      by (intro in_set_butlast_not_last) auto
    with True show ?thesis by (simp add: record_lines_def Let_def)
  next
    case False
    with m show ?thesis by (auto simp: record_lines_def Let_def)
  qed
qed

lemma record_lines_first:
  assumes "fromLine < length (split_on newline text)" and "0 < fromLine"
  shows "record_lines fromLine text \<noteq> [] \<and>
         hd (record_lines fromLine text) = split_on newline text ! (fromLine - 1)"
proof -
  let ?ls = "drop (fromLine - 1) (split_on newline text)"
  from assms have len: "2 \<le> length ?ls" by simp
  then have ne: "?ls \<noteq> []" by auto
  from assms have h: "hd ?ls = split_on newline text ! (fromLine - 1)"
    by (simp add: hd_drop_conv_nth)
  from len have b: "butlast ?ls \<noteq> [] \<and> hd (butlast ?ls) = hd ?ls"
    by (rule butlast_keeps_head)
  show ?thesis
    using ne h b by (auto simp: record_lines_def Let_def)
qed

section \<open>Facts about the numbers and the loops\<close>

lemma js_abs_ok: "non_negative_or_NaN (js_abs x)"
  by (cases x) (simp_all add: non_negative_or_NaN_def)

lemma js_divide_ok: "0 < c \<Longrightarrow> non_negative_or_NaN x \<Longrightarrow> non_negative_or_NaN (js_divide x c)"
  by (cases x) (simp_all add: non_negative_or_NaN_def)

lemma js_times_ok: "0 < c \<Longrightarrow> non_negative_or_NaN x \<Longrightarrow> non_negative_or_NaN (js_times x c)"
  by (cases x) (simp_all add: non_negative_or_NaN_def)

lemma finite_ok: "0 \<le> x \<Longrightarrow> non_negative_or_NaN (Finite x)"
  by (simp add: non_negative_or_NaN_def)

subsection \<open>TrueWealth\<close>

lemma truewealth_activity_fee: "a_fee (truewealth_activity h r sec) = Finite 0"
  by (simp add: truewealth_activity_def isNumberObject_def)

lemma truewealth_activity_ok: "activity_numbers_ok (truewealth_activity h r sec)"
  by (simp add: truewealth_activity_def activity_numbers_ok_def isNumberObject_def js_abs_ok finite_ok)

lemma truewealth_step_pushed:
  assumes "truewealth_step h g idx r st = Next st'" and "a \<in> set (pushed st')"
  shows "a \<in> set (pushed st) \<or> (\<exists>sec. a = truewealth_activity h r sec)"
  using assms
  by (auto simp: truewealth_step_def Let_def split: if_splits lookup.splits)

lemma truewealth_loop_pushed:
  "truewealth_loop h g idx rs st = Next st' \<Longrightarrow> a \<in> set (pushed st') \<Longrightarrow>
   a \<in> set (pushed st) \<or> (\<exists>r sec. r \<in> set rs \<and> a = truewealth_activity h r sec)"
proof (induction rs arbitrary: idx st)
  case Nil
  then show ?case by simp
next
  case (Cons r rs)
  from Cons.prems(1) obtain st1 where
    s1: "truewealth_step h g idx r st = Next st1" and
    l1: "truewealth_loop h g (Suc idx) rs st1 = Next st'"
    by (auto split: flow.splits)
  from Cons.IH [OF l1 Cons.prems(2)]
  show ?case
  proof
    assume "a \<in> set (pushed st1)"
    with s1 truewealth_step_pushed have
      "a \<in> set (pushed st) \<or> (\<exists>sec. a = truewealth_activity h r sec)" by blast
    then show ?thesis by auto
  next
    assume "\<exists>r sec. r \<in> set rs \<and> a = truewealth_activity h r sec"
    then show ?thesis by auto
  qed
qed

lemma truewealth_callback_activities:
  assumes "fst (truewealth_callback h g err records) = SuccessCallback e"
    and "a \<in> set (activities e)"
  shows "\<exists>r sec. a = truewealth_activity h r sec"
proof -
  from assms(1) obtain st where
    l: "truewealth_loop h g 0 (the records) \<lparr>pushed = [], trace = []\<rparr> = Next st" and
    e: "activities e = pushed st"
    by (auto simp: truewealth_callback_def split: if_splits flow.splits)
  from assms(2) e have "a \<in> set (pushed st)" by simp
  from truewealth_loop_pushed [OF l this] show ?thesis by auto
qed

lemma truewealth_processFileContents_activities:
  assumes "fst (truewealth_processFileContents h g columns input) = SuccessCallback e"
    and "a \<in> set (activities e)"
  shows "\<exists>r sec. a = truewealth_activity h r sec"
proof (cases "csv_parse 2 columns truewealth_cast (truewealth_parser_input input)")
  case (Inl err)
  with assms show ?thesis
    by (simp add: truewealth_processFileContents_def truewealth_callback_def)
next
  case (Inr objs)
  with assms(1) have
    "fst (truewealth_callback h g None (Some (map truewealth_record objs))) = SuccessCallback e"
    by (simp add: truewealth_processFileContents_def)
  from truewealth_callback_activities [OF this assms(2)] show ?thesis .
qed

text \<open>The first call that throws ends the loop.\<close>

lemma truewealth_step_throws:
  assumes "\<not> truewealth_isIgnoredRecord r" and "g idx (truewealth_query r) = Throws err"
  shows "truewealth_step h g idx r st =
           Stop (Thrown err)
             \<lparr>pushed = pushed st,
              trace = trace st @ [Lookup idx (truewealth_query r),
                                  LogQueryError (truewealth_identifier r) (idx + 2)]\<rparr>"
  using assms by (simp add: truewealth_step_def Let_def)

lemma truewealth_loop_throws:
  "i < length rs \<Longrightarrow> \<not> truewealth_isIgnoredRecord (rs ! i) \<Longrightarrow>
   g (idx + i) (truewealth_query (rs ! i)) = Throws err \<Longrightarrow>
   \<exists>j err' st'. j \<le> i \<and> \<not> truewealth_isIgnoredRecord (rs ! j) \<and>
      g (idx + j) (truewealth_query (rs ! j)) = Throws err' \<and>
      truewealth_loop h g idx rs st = Stop (Thrown err') st' \<and>
      last (trace st') = LogQueryError (truewealth_identifier (rs ! j)) (idx + j + 2)"
proof (induction rs arbitrary: i idx st)
  case Nil
  then show ?case by simp
next
  case (Cons r rs)
  show ?case
  proof (cases "truewealth_step h g idx r st")
    case (Stop f st1)
    then obtain err1 where
      ni: "\<not> truewealth_isIgnoredRecord r" and th: "g idx (truewealth_query r) = Throws err1"
      by (auto simp: truewealth_step_def Let_def split: if_splits lookup.splits)
    from truewealth_step_throws [where g = g and h = h and st = st, OF ni th]
    have "truewealth_loop h g idx (r # rs) st =
            Stop (Thrown err1)
              \<lparr>pushed = pushed st,
               trace = trace st @ [Lookup idx (truewealth_query r),
                                   LogQueryError (truewealth_identifier r) (idx + 2)]\<rparr>"
      by simp
    with ni th show ?thesis
      by (intro exI [of _ 0] exI [of _ err1]
            exI [of _ "\<lparr>pushed = pushed st,
               trace = trace st @ [Lookup idx (truewealth_query r),
                                   LogQueryError (truewealth_identifier r) (idx + 2)]\<rparr>"]) simp
  next
    case (Next st1)
    have "i \<noteq> 0"
    proof
      assume "i = 0"
      with Cons.prems have "\<not> truewealth_isIgnoredRecord r" "g idx (truewealth_query r) = Throws err"
        by simp_all
      from truewealth_step_throws [where g = g and h = h and st = st, OF this] Next show False by simp
    qed
    then obtain k where k: "i = Suc k" by (cases i) auto
    with Cons.prems have "k < length rs" "\<not> truewealth_isIgnoredRecord (rs ! k)"
      "g (Suc idx + k) (truewealth_query (rs ! k)) = Throws err"
      by simp_all
    from Cons.IH [OF this, of st1] obtain j err' st' where
      j: "j \<le> k" "\<not> truewealth_isIgnoredRecord (rs ! j)"
         "g (Suc idx + j) (truewealth_query (rs ! j)) = Throws err'"
         "truewealth_loop h g (Suc idx) rs st1 = Stop (Thrown err') st'"
         "last (trace st') = LogQueryError (truewealth_identifier (rs ! j)) (Suc idx + j + 2)"
      by blast
    with Next k show ?thesis
      by (intro exI [of _ "Suc j"] exI [of _ err'] exI [of _ st']) simp
  qed
qed

subsection \<open>Bitpanda\<close>

lemma bitpanda_cast_ok: "bitpanda_cast c v = Number x \<Longrightarrow> non_negative_or_NaN x"
  by (auto simp: bitpanda_cast_def js_abs_ok finite_ok split: if_splits)

lemma cast_object_values:
  assumes "map_of (zip columns (map (\<lambda>(c, v). cast c v) (zip columns fs))) k = Some y"
  shows "\<exists>c v. y = cast c v"
proof -
  from assms have "(k, y) \<in> set (zip columns (map (\<lambda>(c, v). cast c v) (zip columns fs)))"
    by (rule map_of_SomeD)
  then have "y \<in> set (map (\<lambda>(c, v). cast c v) (zip columns fs))"
    by (rule set_zip_rightD)
  then show ?thesis by auto
qed

lemma csv_records_values:
  "csv_records columns cast line ls = Inr objs \<Longrightarrow> obj \<in> set objs \<Longrightarrow>
   map_of obj k = Some y \<Longrightarrow> \<exists>c v. y = cast c v"
proof (induction ls arbitrary: line objs)
  case Nil
  then show ?case by simp
next
  case (Cons l ls)
  from Cons.prems(1) obtain rs where
    rs: "csv_records columns cast (Suc line) ls = Inr rs" and
    objs: "objs = zip columns (map (\<lambda>(c, v). cast c v) (zip columns (split_on CHR '','' l))) # rs"
    by (auto simp: Let_def split: if_splits sum.splits)
  from Cons.prems(2) objs
  have "obj = zip columns (map (\<lambda>(c, v). cast c v) (zip columns (split_on CHR '','' l))) \<or> obj \<in> set rs"
    by simp
  then show ?case
  proof
    assume "obj = zip columns (map (\<lambda>(c, v). cast c v) (zip columns (split_on CHR '','' l)))"
    with Cons.prems(3) show ?thesis by (auto dest: cast_object_values)
  next
    assume "obj \<in> set rs"
    from Cons.IH [OF rs this Cons.prems(3)] show ?thesis .
  qed
qed

lemma bitpanda_number_field_ok:
  assumes "csv_records columns bitpanda_cast line ls = Inr objs" and "obj \<in> set objs"
  shows "non_negative_or_NaN (number_field obj k)"
proof (cases "map_of obj k")
  case None
  then show ?thesis by (simp add: number_field_def non_negative_or_NaN_def)
next
  case (Some y)
  from csv_records_values [OF assms Some] obtain c v where y: "y = bitpanda_cast c v" by blast
  show ?thesis
  proof (cases y)
    case (Number x)
    with y have "non_negative_or_NaN x" by (simp add: bitpanda_cast_ok)
    with Some Number show ?thesis by (simp add: number_field_def)
  qed (simp_all add: Some number_field_def non_negative_or_NaN_def)
qed

lemma bitpanda_parse_numbers_ok:
  assumes "bitpanda_parse input = Inr records" and "r \<in> set records"
  shows "bitpanda_numbers_ok r"
proof -
  from assms(1) obtain objs where
    p: "csv_parse bitpanda_fromLine bitpanda_processHeaders bitpanda_cast (processedInput input) = Inr objs"
    and rs: "records = map bitpanda_record objs"
    by (auto simp: bitpanda_parse_def split: sum.splits)
  from assms(2) rs obtain obj where obj: "obj \<in> set objs" "r = bitpanda_record obj" by auto
  from p have c: "csv_records bitpanda_processHeaders bitpanda_cast bitpanda_fromLine
                    (record_lines bitpanda_fromLine (processedInput input)) = Inr objs"
    by (simp add: csv_parse_def)
  note ok = bitpanda_number_field_ok [OF c obj(1)]
  show ?thesis
    unfolding bitpanda_numbers_ok_def obj(2) bitpanda_record_def
    by (simp add: ok)
qed

lemma bitpanda_asset_ok:
  assumes "bitpanda_numbers_ok r"
  shows "non_negative_or_NaN (fst (snd (fst (bitpanda_asset g idx r)))) \<and>
         non_negative_or_NaN (snd (snd (fst (bitpanda_asset g idx r))))"
  using assms
  by (simp add: bitpanda_asset_def Let_def bitpanda_numbers_ok_def gramsToTroyOunces_def
        js_divide_ok js_times_ok)

lemma bitpanda_activities_ok:
  assumes "bitpanda_numbers_ok r" and "non_negative_or_NaN (fst (snd sqp))"
    and "non_negative_or_NaN (snd (snd sqp))" and "a \<in> set (bitpanda_activities h r ty sqp)"
  shows "activity_numbers_ok a"
  using assms
  by (auto simp: bitpanda_activities_def Let_def bitpanda_numbers_ok_def activity_numbers_ok_def
        finite_ok split: if_splits)

lemma bitpanda_step_pushed:
  assumes "a \<in> set (pushed (bitpanda_step h g idx r st))"
  shows "a \<in> set (pushed st) \<or>
         (\<exists>ty. \<not> bitpanda_isIgnoredRecord r \<and> bitpanda_type r = Some ty \<and>
            a \<in> set (bitpanda_activities h r ty (fst (bitpanda_asset g idx r))))"
  using assms
  by (auto simp: bitpanda_step_def split: if_splits option.splits)

lemma bitpanda_loop_pushed:
  "a \<in> set (pushed (bitpanda_loop h g idx rs st)) \<Longrightarrow>
   a \<in> set (pushed st) \<or>
   (\<exists>r i ty. r \<in> set rs \<and> \<not> bitpanda_isIgnoredRecord r \<and> bitpanda_type r = Some ty \<and>
      a \<in> set (bitpanda_activities h r ty (fst (bitpanda_asset g i r))))"
proof (induction rs arbitrary: idx st)
  case Nil
  then show ?case by simp
next
  case (Cons r rs)
  from Cons.prems have "a \<in> set (pushed (bitpanda_loop h g (Suc idx) rs (bitpanda_step h g idx r st)))"
    by simp
  from Cons.IH [OF this] show ?case
  proof
    assume "a \<in> set (pushed (bitpanda_step h g idx r st))"
    from bitpanda_step_pushed [OF this] show ?thesis by auto
  next
    assume "\<exists>r i ty. r \<in> set rs \<and> \<not> bitpanda_isIgnoredRecord r \<and> bitpanda_type r = Some ty \<and>
      a \<in> set (bitpanda_activities h r ty (fst (bitpanda_asset g i r)))"
    then show ?thesis by auto
  qed
qed

lemma bitpanda_callback_activities:
  assumes "fst (bitpanda_callback h g err records) = SuccessCallback e"
    and "a \<in> set (activities e)"
  shows "\<exists>r i ty. r \<in> set (the records) \<and> \<not> bitpanda_isIgnoredRecord r \<and>
           bitpanda_type r = Some ty \<and>
           a \<in> set (bitpanda_activities h r ty (fst (bitpanda_asset g i r)))"
proof -
  from assms have "a \<in> set (pushed (bitpanda_loop h g 0 (the records) \<lparr>pushed = [], trace = []\<rparr>))"
    by (auto simp: bitpanda_callback_def Let_def split: if_splits)
  from bitpanda_loop_pushed [OF this] show ?thesis by simp
qed

lemma bitpanda_callback_succeeds:
  "records \<noteq> [] \<Longrightarrow>
   fst (bitpanda_callback h g None (Some records)) =
     SuccessCallback \<lparr>meta_date = new_Date h, meta_version = ''v0'',
       activities = pushed (bitpanda_loop h g 0 records \<lparr>pushed = [], trace = []\<rparr>)\<rparr>"
  by (simp add: bitpanda_callback_def Let_def)

lemma bitpanda_unclassified_row_dropped:
  "bitpanda_type r = None \<Longrightarrow> bitpanda_step h getSecurity idx r st = st"
  by (simp add: bitpanda_step_def)

lemma bitpanda_step_classified:
  assumes "\<not> bitpanda_isIgnoredRecord r" and "bitpanda_type r = Some ty"
  shows "bitpanda_step h g idx r st =
           \<lparr>pushed = pushed st @ bitpanda_activities h r ty (fst (bitpanda_asset g idx r)),
            trace = trace st @ snd (bitpanda_asset g idx r)\<rparr>"
  using assms by (simp add: bitpanda_step_def)

lemma appended_bitpanda_step:
  assumes "\<not> bitpanda_isIgnoredRecord r" and "bitpanda_type r = Some ty"
  shows "appended st (bitpanda_step h g idx r st) =
           bitpanda_activities h r ty (fst (bitpanda_asset g idx r))"
  by (simp add: appended_def bitpanda_step_classified [OF assms])

lemma bitpanda_asset_metal:
  assumes "toLowerCase (assetClass r) = ''metal''"
  shows "bitpanda_asset g idx r =
           ((fst (metal_symbol g idx r), js_divide (amountAsset r) 31.1034768,
             js_times (assetMarketPrice r) 31.1034768),
            snd (metal_symbol g idx r))"
proof -
  from assms have "assetClass r \<noteq> []" by (auto simp: toLowerCase_def)
  with assms show ?thesis
    by (simp add: bitpanda_asset_def Let_def gramsToTroyOunces_def)
qed

lemma bitpanda_asset_not_metal:
  assumes "toLowerCase (assetClass r) \<noteq> ''metal''"
  shows "fst (snd (fst (bitpanda_asset g idx r))) = amountAsset r" and
    "snd (snd (fst (bitpanda_asset g idx r))) = assetMarketPrice r"
  using assms by (simp_all add: bitpanda_asset_def Let_def)

lemma bitpanda_asset_cryptocurrency:
  assumes "toLowerCase (assetClass r) = ''cryptocurrency''"
  shows "fst (fst (bitpanda_asset g idx r)) =
           template_text (mapBitpandaSymbolToYahoo (asset r)) @ ''USD''"
proof -
  from assms have "assetClass r \<noteq> []" by (auto simp: toLowerCase_def)
  with assms show ?thesis
    by (simp add: bitpanda_asset_def Let_def)
qed

lemma mapBitpandaSymbolToYahoo_eq:
  "a \<notin> set (map fst Object_prototype) \<Longrightarrow>
   template_text (mapBitpandaSymbolToYahoo a) = (if a = ''POL'' then ''MATIC'' else a)"
  by (simp add: mapBitpandaSymbolToYahoo_def template_text_def)

lemma metal_symbol_lookup: "Lookup idx (metal_query r) \<in> set (snd (metal_symbol g idx r))"
  by (simp add: metal_symbol_def split: lookup.splits option.splits)

lemma metal_symbol_fallback:
  "g idx (metal_query r) = Nothing \<or> g idx (metal_query r) = Throws err \<Longrightarrow>
   fst (metal_symbol g idx r) = asset r"
  by (auto simp: metal_symbol_def)

lemma bitpanda_activities_last:
  "bitpanda_activities h r ty sqp \<noteq> [] \<and>
   a_quantity (last (bitpanda_activities h r ty sqp)) = fst (snd sqp) \<and>
   a_unitPrice (last (bitpanda_activities h r ty sqp)) = snd (snd sqp) \<and>
   a_symbol (last (bitpanda_activities h r ty sqp)) = Some (fst sqp) \<and>
   a_dataSource (last (bitpanda_activities h r ty sqp)) = ''YAHOO''"
  by (simp add: bitpanda_activities_def Let_def)

lemma bitpanda_activities_interest:
  "bitpanda_activities h r ''interest'' sqp =
     [\<lparr>a_accountId = GHOSTFOLIO_ACCOUNT_ID h,
       a_comment = ''Staking reward '' @ asset r,
       a_fee = fee r,
       a_quantity = Finite 1,
       a_type = Some INTEREST,
       a_unitPrice = amountFiat r,
       a_currency = fiat r,
       a_dataSource = ''MANUAL'',
       a_date = dayjs_format h (timestamp r),
       a_symbol = GHOSTFOLIO_BITPANDA_STAKING_REWARD_ASSET_ID h\<rparr>,
      \<lparr>a_accountId = GHOSTFOLIO_ACCOUNT_ID h,
       a_comment = [],
       a_fee = Finite 0,
       a_quantity = fst (snd sqp),
       a_type = Some BUY,
       a_unitPrice = snd (snd sqp),
       a_currency = (if assetMarketPriceCurrency r \<noteq> [] then assetMarketPriceCurrency r else fiat r),
       a_dataSource = ''YAHOO'',
       a_date = dayjs_format h (timestamp r),
       a_symbol = Some (fst sqp)\<rparr>]"
  by (simp add: bitpanda_activities_def Let_def GhostfolioOrderType_def)

section \<open>Runs on the example inputs\<close>

lemmas truewealth_run_defs =
  truewealth_processFileContents_def truewealth_parser_input_def csv_parse_def record_lines_def
  truewealth_callback_def truewealth_step_def truewealth_activity_def truewealth_record_def
  truewealth_isIgnoredRecord_def truewealth_query_def truewealth_identifier_def truewealth_cast_def
  string_field_def number_field_def toLowerCase_def lower_char_def isNumberObject_def
  GhostfolioOrderType_def parseFloat_def unsigned_literal_def exponent_part_def scale10_def
  digits_value_def digit_value_def is_digit_def is_space_def newline_def Let_def
  example_host_def truewealth_columns_def

text \<open>
  The scenario of the specification: a buy of -5 shares at 10, with fees 1.5 in the file.
\<close>

lemma truewealth_buy_file_run:
  "fst (truewealth_processFileContents example_host resolver_found truewealth_columns
          truewealth_buy_file) = SuccessCallback truewealth_buy_envelope"
  by (simp add: truewealth_run_defs resolver_found_def truewealth_buy_file_def
        truewealth_buy_envelope_def)

lemma bitpanda_file_split_lines: "split_lines bitpanda_file = bitpanda_file_lines"
  unfolding bitpanda_file_def
  by (rule split_lines_join)
     (simp_all add: bitpanda_file_lines_def newline_def strip_cr_def carriage_return_def)

lemma bitpanda_file_tokenizer_lines:
  "split_on newline (processedInput bitpanda_file) =
     take 8 bitpanda_file_lines @
     [''T1,2024-01-05T10:00:00Z,buy,outgoing,100.00,EUR,0.5,BTC,200.00,EUR,Cryptocurrency,1,1.00,EUR,-,-,-,-'']"
  unfolding tokenizer_lines bitpanda_file_split_lines
  by (simp add: bitpanda_file_lines_def pad_lines_def pad_line_def headerLineIdx_def
        bitpanda_processHeaders_def blank_def is_space_def)

lemma bitpanda_file_parse: "bitpanda_parse bitpanda_file = Inr bitpanda_file_records"
  unfolding bitpanda_parse_def csv_parse_def record_lines_def bitpanda_file_tokenizer_lines
  by (simp add: bitpanda_file_lines_def bitpanda_file_records_def bitpanda_fromLine_def
        bitpanda_processHeaders_def bitpanda_cast_def floatFields_def strip_non_numeric_def
        bitpanda_record_def string_field_def number_field_def
        parseFloat_def unsigned_literal_def exponent_part_def scale10_def
        digits_value_def digit_value_def is_digit_def is_space_def)

lemmas bitpanda_run_defs =
  bitpanda_processFileContents_def bitpanda_callback_def bitpanda_step_def
  bitpanda_isIgnoredRecord_def bitpanda_type_def bitpanda_asset_def bitpanda_activities_def
  metal_symbol_def metal_query_def mapBitpandaSymbolToYahoo_def template_text_def
  Object_prototype_def gramsToTroyOunces_def
  toLowerCase_def lower_char_def GhostfolioOrderType_def Let_def example_host_def

lemma bitpanda_file_run:
  "fst (bitpanda_processFileContents example_host resolver_found bitpanda_file) =
     SuccessCallback bitpanda_file_envelope"
  by (simp add: bitpanda_processFileContents_def bitpanda_file_parse)
     (simp add: bitpanda_run_defs bitpanda_file_records_def bitpanda_file_envelope_def)

lemma truewealth_empty_shares_run:
  "fst (truewealth_processFileContents example_host resolver_found truewealth_columns
          truewealth_empty_shares_file) =
     SuccessCallback \<lparr>meta_date = ''2024-02-01T00:00:00Z'', meta_version = ''v0'',
       activities = [truewealth_empty_shares_activity]\<rparr>"
  by (simp add: truewealth_run_defs resolver_found_def truewealth_empty_shares_file_def
        truewealth_empty_shares_activity_def)

lemma truewealth_split_run:
  "fst (truewealth_processFileContents example_host resolver_found truewealth_columns
          truewealth_split_file) =
     SuccessCallback \<lparr>meta_date = ''2024-02-01T00:00:00Z'', meta_version = ''v0'',
       activities = [truewealth_split_activity]\<rparr>"
  by (simp add: truewealth_run_defs resolver_found_def truewealth_split_file_def
        truewealth_split_activity_def)

lemma metal_buy_run:
  "bitpanda_callback example_host resolver_throws None (Some [metal_buy_record]) =
     (SuccessCallback \<lparr>meta_date = ''2024-02-01T00:00:00Z'', meta_version = ''v0'',
        activities = [metal_buy_activity]\<rparr>,
      [Lookup 0 \<lparr>q_isin = None, q_symbol = None, q_name = Some ''Gold'', q_currency = None\<rparr>,
       LogMetalError ''Gold'' ''timeout''])"
  by (simp add: bitpanda_run_defs resolver_throws_def metal_buy_record_def metal_buy_activity_def)

section \<open>The claims\<close>

text \<open>
  C1, as amended: in the TrueWealth converter, when the security service throws on a record
  that is not ignored, the run ends at the first such record: the error callback receives the
  error the service threw, the last message is that of \<open>logQueryError\<close> with the
  identifier attempted (the ISIN, or the security name when the ISIN is empty) and the line
  number of the record (its index plus 2), and no envelope is delivered. In the Bitpanda
  converter the only call of the service is the metal lookup, whose error is caught: a run
  over a non-empty list of parsed records always delivers its envelope, whatever the
  service does.
\<close>

theorem C1_resolver_error_ends_truewealth_run:
  "(i < length rs \<and> \<not> truewealth_isIgnoredRecord (rs ! i) \<and>
    getSecurity i (truewealth_query (rs ! i)) = Throws err \<longrightarrow>
    (\<exists>j err'. j \<le> i \<and> \<not> truewealth_isIgnoredRecord (rs ! j) \<and>
       getSecurity j (truewealth_query (rs ! j)) = Throws err' \<and>
       fst (truewealth_callback h getSecurity None (Some rs)) = ErrorCallback (Thrown err') \<and>
       delivered (fst (truewealth_callback h getSecurity None (Some rs))) = None \<and>
       last (snd (truewealth_callback h getSecurity None (Some rs))) =
         LogQueryError (truewealth_identifier (rs ! j)) (j + 2))) \<and>
   (records \<noteq> [] \<longrightarrow>
    delivered (fst (bitpanda_callback h' getSecurity' None (Some records))) =
      Some \<lparr>meta_date = new_Date h', meta_version = ''v0'',
        activities = pushed (bitpanda_loop h' getSecurity' 0 records \<lparr>pushed = [], trace = []\<rparr>)\<rparr>)"
proof (intro conjI impI)
  assume a: "i < length rs \<and> \<not> truewealth_isIgnoredRecord (rs ! i) \<and>
    getSecurity i (truewealth_query (rs ! i)) = Throws err"
  then have ne: "rs \<noteq> []" by auto
  from a have "i < length rs" "\<not> truewealth_isIgnoredRecord (rs ! i)"
    "getSecurity (0 + i) (truewealth_query (rs ! i)) = Throws err" by simp_all
  from truewealth_loop_throws [where g = getSecurity and idx = 0 and h = h and
      st = "\<lparr>pushed = [], trace = []\<rparr>", OF this]
  obtain j err' st' where
    j: "j \<le> i" "\<not> truewealth_isIgnoredRecord (rs ! j)"
       "getSecurity (0 + j) (truewealth_query (rs ! j)) = Throws err'"
       "truewealth_loop h getSecurity 0 rs \<lparr>pushed = [], trace = []\<rparr> = Stop (Thrown err') st'"
       "last (trace st') = LogQueryError (truewealth_identifier (rs ! j)) (0 + j + 2)"
    by blast
  from ne j(4) have out: "truewealth_callback h getSecurity None (Some rs) = (ErrorCallback (Thrown err'), trace st')"
    by (simp add: truewealth_callback_def)
  show "\<exists>j err'. j \<le> i \<and> \<not> truewealth_isIgnoredRecord (rs ! j) \<and>
       getSecurity j (truewealth_query (rs ! j)) = Throws err' \<and>
       fst (truewealth_callback h getSecurity None (Some rs)) = ErrorCallback (Thrown err') \<and>
       delivered (fst (truewealth_callback h getSecurity None (Some rs))) = None \<and>
       last (snd (truewealth_callback h getSecurity None (Some rs))) =
         LogQueryError (truewealth_identifier (rs ! j)) (j + 2)"
    using j(1,2,3,5) out
    by (intro exI [of _ j] exI [of _ err']) (simp add: delivered_def)
next
  assume "records \<noteq> []"
  then show "delivered (fst (bitpanda_callback h' getSecurity' None (Some records))) =
      Some \<lparr>meta_date = new_Date h', meta_version = ''v0'',
        activities = pushed (bitpanda_loop h' getSecurity' 0 records \<lparr>pushed = [], trace = []\<rparr>)\<rparr>"
    by (simp add: bitpanda_callback_succeeds delivered_def)
qed

theorem C1_witness:
  "(1 < length truewealth_two_records \<and>
    \<not> truewealth_isIgnoredRecord (truewealth_two_records ! 1) \<and>
    resolver_throws_on_second 1 (truewealth_query (truewealth_two_records ! 1)) = Throws ''timeout'') \<and>
   fst (truewealth_callback example_host resolver_throws_on_second None (Some truewealth_two_records)) =
     ErrorCallback (Thrown ''timeout'') \<and>
   delivered (fst (truewealth_callback example_host resolver_throws_on_second None
     (Some truewealth_two_records))) = None \<and>
   last (snd (truewealth_callback example_host resolver_throws_on_second None
     (Some truewealth_two_records))) = LogQueryError ''Other Fund'' 3 \<and>
   [metal_buy_record] \<noteq> [] \<and>
   delivered (fst (bitpanda_callback example_host resolver_throws None (Some [metal_buy_record]))) =
     Some \<lparr>meta_date = new_Date example_host, meta_version = ''v0'',
       activities = pushed (bitpanda_loop example_host resolver_throws 0 [metal_buy_record]
         \<lparr>pushed = [], trace = []\<rparr>)\<rparr>"
proof -
  have hyp: "1 < length truewealth_two_records \<and>
    \<not> truewealth_isIgnoredRecord (truewealth_two_records ! 1) \<and>
    resolver_throws_on_second 1 (truewealth_query (truewealth_two_records ! 1)) = Throws ''timeout''"
    by (simp add: truewealth_two_records_def truewealth_isIgnoredRecord_def toLowerCase_def
          lower_char_def resolver_throws_on_second_def)
  have run: "truewealth_callback example_host resolver_throws_on_second None (Some truewealth_two_records) =
     (ErrorCallback (Thrown ''timeout''),
      [Lookup 0 (truewealth_query (truewealth_two_records ! 0)),
       Lookup 1 (truewealth_query (truewealth_two_records ! 1)),
       LogQueryError ''Other Fund'' 3])"
    by (simp add: truewealth_callback_def truewealth_step_def truewealth_two_records_def
          truewealth_isIgnoredRecord_def toLowerCase_def lower_char_def
          resolver_throws_on_second_def truewealth_identifier_def Let_def)
  from C1_resolver_error_ends_truewealth_run
    [of 1 truewealth_two_records resolver_throws_on_second "''timeout''" example_host
        "[metal_buy_record]" example_host resolver_throws]
    hyp run
  show ?thesis by (simp add: delivered_def)
qed

theorem C1_counterexample:
  "resolver_throws 0 (metal_query metal_buy_record) = Throws ''timeout'' \<and>
   delivered (fst (bitpanda_callback example_host resolver_throws None (Some [metal_buy_record]))) =
     Some \<lparr>meta_date = ''2024-02-01T00:00:00Z'', meta_version = ''v0'',
       activities = [metal_buy_activity]\<rparr> \<and>
   a_symbol metal_buy_activity = Some ''Gold''"
proof -
  have a: "resolver_throws 0 (metal_query metal_buy_record) = Throws ''timeout''"
    by (simp add: resolver_throws_def)
  have b: "delivered (fst (bitpanda_callback example_host resolver_throws None
             (Some [metal_buy_record]))) =
           Some \<lparr>meta_date = ''2024-02-01T00:00:00Z'', meta_version = ''v0'',
             activities = [metal_buy_activity]\<rparr>"
    by (simp add: metal_buy_run delivered_def)
  have c: "a_symbol metal_buy_activity = Some ''Gold''"
    by (simp add: metal_buy_activity_def)
  from a b c show ?thesis by (intro conjI)
qed

text \<open>
  C2: a row that is not ignored and whose type matches no rule yields no activity. The
  TrueWealth converter breaks this: its cast leaves the type of a stock split row as it
  found it, the row is looked up like any other, and one activity is pushed whose type,
  \<open>GhostfolioOrderType["Split"]\<close>, is undefined.
\<close>

theorem C2_truewealth_unclassified_row_is_emitted:
  "truewealth_cast ''type'' ''Split'' = Str ''Split'' \<and>
   delivered (fst (truewealth_processFileContents example_host resolver_found truewealth_columns
     truewealth_split_file)) =
     Some \<lparr>meta_date = ''2024-02-01T00:00:00Z'', meta_version = ''v0'',
       activities = [truewealth_split_activity]\<rparr> \<and>
   a_type truewealth_split_activity = None"
proof -
  have a: "truewealth_cast ''type'' ''Split'' = Str ''Split''"
    by (simp add: truewealth_cast_def toLowerCase_def lower_char_def)
  have b: "delivered (fst (truewealth_processFileContents example_host resolver_found
             truewealth_columns truewealth_split_file)) =
           Some \<lparr>meta_date = ''2024-02-01T00:00:00Z'', meta_version = ''v0'',
             activities = [truewealth_split_activity]\<rparr>"
    by (simp add: truewealth_split_run delivered_def)
  have c: "a_type truewealth_split_activity = None"
    by (simp add: truewealth_split_activity_def)
  from a b c show ?thesis by (intro conjI)
qed

text \<open>
  C3, as amended: a Bitpanda record that is not ignored and is classified as interest has
  exactly two activities pushed, one after the other and with the same formatted date. The
  first is sourced \<open>MANUAL\<close>, of type interest, with quantity 1, the fiat amount as unit
  price, the fiat currency, and the configured reward asset as symbol. The second is a buy
  of the rewarded asset with the asset amount and the asset market price of the record,
  converted to troy ounces and to a price per troy ounce when the asset class is metal; its
  currency is the currency of the market price, or the fiat currency when that is empty.
\<close>

theorem C3_reward_gives_manual_booking_then_buy:
  assumes "\<not> bitpanda_isIgnoredRecord r" and "bitpanda_type r = Some ''interest''"
  shows "\<exists>m b. pushed (bitpanda_step h getSecurity idx r st) = pushed st @ [m, b] \<and>
     a_dataSource m = ''MANUAL'' \<and> a_type m = Some INTEREST \<and> a_quantity m = Finite 1 \<and>
     a_unitPrice m = amountFiat r \<and> a_currency m = fiat r \<and>
     a_symbol m = GHOSTFOLIO_BITPANDA_STAKING_REWARD_ASSET_ID h \<and>
     a_date m = dayjs_format h (timestamp r) \<and> a_date b = a_date m \<and>
     a_dataSource b = ''YAHOO'' \<and> a_type b = Some BUY \<and>
     a_symbol b = Some (fst (fst (bitpanda_asset getSecurity idx r))) \<and>
     a_quantity b =
       (if toLowerCase (assetClass r) = ''metal'' then js_divide (amountAsset r) 31.1034768
        else amountAsset r) \<and>
     a_unitPrice b =
       (if toLowerCase (assetClass r) = ''metal'' then js_times (assetMarketPrice r) 31.1034768
        else assetMarketPrice r) \<and>
     a_currency b =
       (if assetMarketPriceCurrency r \<noteq> [] then assetMarketPriceCurrency r else fiat r)"
proof -
  let ?sqp = "fst (bitpanda_asset getSecurity idx r)"
  have q: "fst (snd ?sqp) =
      (if toLowerCase (assetClass r) = ''metal'' then js_divide (amountAsset r) 31.1034768
       else amountAsset r)"
    by (simp add: bitpanda_asset_metal bitpanda_asset_not_metal)
  have p: "snd (snd ?sqp) =
      (if toLowerCase (assetClass r) = ''metal'' then js_times (assetMarketPrice r) 31.1034768
       else assetMarketPrice r)"
    by (simp add: bitpanda_asset_metal bitpanda_asset_not_metal)
  have "pushed (bitpanda_step h getSecurity idx r st) =
          pushed st @ bitpanda_activities h r ''interest'' ?sqp"
    by (simp add: bitpanda_step_classified [OF assms])
  then show ?thesis
    unfolding bitpanda_activities_interest
    by (intro exI conjI) (assumption, simp_all only: activity.simps q p)
qed

theorem C3_witness:
  "\<not> bitpanda_isIgnoredRecord reward_record \<and> bitpanda_type reward_record = Some ''interest'' \<and>
   map (\<lambda>a. (a_dataSource a, a_type a, a_quantity a, a_unitPrice a, a_currency a, a_symbol a, a_date a))
     (pushed (bitpanda_step example_host resolver_nothing 0 reward_record empty_state)) =
     [(''MANUAL'', Some INTEREST, Finite 1, Finite 5, ''EUR'', Some ''reward-asset'',
       ''2024-01-07T10:00:00Z''),
      (''YAHOO'', Some BUY, Finite 0.001, Finite 50000, ''EUR'', Some ''BTCUSD'',
       ''2024-01-07T10:00:00Z'')]"
proof -
  have i: "\<not> bitpanda_isIgnoredRecord reward_record"
    by (simp add: bitpanda_isIgnoredRecord_def reward_record_def toLowerCase_def lower_char_def)
  have t: "bitpanda_type reward_record = Some ''interest''"
    by (simp add: bitpanda_type_def reward_record_def toLowerCase_def lower_char_def)
  have c: "toLowerCase (assetClass reward_record) = ''cryptocurrency''"
    by (simp add: reward_record_def toLowerCase_def lower_char_def)
  have s: "fst (fst (bitpanda_asset resolver_nothing 0 reward_record)) = ''BTCUSD''"
    by (simp add: bitpanda_asset_cryptocurrency [OF c])
       (simp add: reward_record_def mapBitpandaSymbolToYahoo_def template_text_def
          Object_prototype_def)
  from C3_reward_gives_manual_booking_then_buy [OF i t, of example_host resolver_nothing 0 empty_state]
  obtain m b where
    "pushed (bitpanda_step example_host resolver_nothing 0 reward_record empty_state) =
       pushed empty_state @ [m, b]"
    "a_dataSource m = ''MANUAL''" "a_type m = Some INTEREST" "a_quantity m = Finite 1"
    "a_unitPrice m = amountFiat reward_record" "a_currency m = fiat reward_record"
    "a_symbol m = GHOSTFOLIO_BITPANDA_STAKING_REWARD_ASSET_ID example_host"
    "a_date m = dayjs_format example_host (timestamp reward_record)" "a_date b = a_date m"
    "a_dataSource b = ''YAHOO''" "a_type b = Some BUY"
    "a_symbol b = Some (fst (fst (bitpanda_asset resolver_nothing 0 reward_record)))"
    "a_quantity b =
       (if toLowerCase (assetClass reward_record) = ''metal''
        then js_divide (amountAsset reward_record) 31.1034768 else amountAsset reward_record)"
    "a_unitPrice b =
       (if toLowerCase (assetClass reward_record) = ''metal''
        then js_times (assetMarketPrice reward_record) 31.1034768
        else assetMarketPrice reward_record)"
    "a_currency b =
       (if assetMarketPriceCurrency reward_record \<noteq> [] then assetMarketPriceCurrency reward_record
        else fiat reward_record)"
    by blast
  with i t show ?thesis
    by (simp add: s c empty_state_def) (simp add: reward_record_def example_host_def)
qed

theorem C3_counterexample:
  "\<not> bitpanda_isIgnoredRecord metal_reward_record \<and>
   bitpanda_type metal_reward_record = Some ''interest'' \<and>
   amountAsset metal_reward_record = Finite 31.1034768 \<and>
   assetMarketPrice metal_reward_record = Finite 2 \<and>
   map (\<lambda>a. (a_dataSource a, a_quantity a, a_unitPrice a))
     (pushed (bitpanda_step example_host resolver_nothing 0 metal_reward_record empty_state)) =
     [(''MANUAL'', Finite 1, Finite 62), (''YAHOO'', Finite 1, Finite 62.2069536)]"
  by (simp add: bitpanda_run_defs metal_reward_record_def resolver_nothing_def empty_state_def)

text \<open>
  C4, as amended: in the envelope of either converter no quantity, unit price or fee is
  negative: each is at least 0, or is \<open>NaN\<close> (which a numeric cell that is not a number
  becomes, and which \<open>Math.abs\<close> leaves as it is).
\<close>

theorem C4_numbers_never_negative:
  "(fst (truewealth_processFileContents h getSecurity columns input) = SuccessCallback e \<longrightarrow>
      (\<forall>a\<in>set (activities e). activity_numbers_ok a)) \<and>
   (fst (bitpanda_processFileContents h' getSecurity' input') = SuccessCallback e' \<longrightarrow>
      (\<forall>a\<in>set (activities e'). activity_numbers_ok a))"
proof (intro conjI impI ballI)
  fix a
  assume "fst (truewealth_processFileContents h getSecurity columns input) = SuccessCallback e"
    and "a \<in> set (activities e)"
  from truewealth_processFileContents_activities [OF this]
  obtain r sec where "a = truewealth_activity h r sec" by blast
  then show "activity_numbers_ok a" by (simp add: truewealth_activity_ok)
next
  fix a
  assume run: "fst (bitpanda_processFileContents h' getSecurity' input') = SuccessCallback e'"
    and a: "a \<in> set (activities e')"
  show "activity_numbers_ok a"
  proof (cases "bitpanda_parse input'")
    case (Inl err)
    with run show ?thesis
      by (simp add: bitpanda_processFileContents_def bitpanda_callback_def)
  next
    case (Inr records)
    with run have "fst (bitpanda_callback h' getSecurity' None (Some records)) = SuccessCallback e'"
      by (simp add: bitpanda_processFileContents_def)
    from bitpanda_callback_activities [OF this a] obtain r i ty where
      r: "r \<in> set records" and
      m: "a \<in> set (bitpanda_activities h' r ty (fst (bitpanda_asset getSecurity' i r)))"
      by auto
    from bitpanda_parse_numbers_ok [OF Inr r] have ok: "bitpanda_numbers_ok r" .
    from bitpanda_asset_ok [OF ok, of getSecurity' i] bitpanda_activities_ok [OF ok _ _ m]
    show ?thesis by blast
  qed
qed

theorem C4_witness:
  "fst (truewealth_processFileContents example_host resolver_found truewealth_columns
          truewealth_buy_file) = SuccessCallback truewealth_buy_envelope \<and>
   list_all activity_numbers_ok (activities truewealth_buy_envelope) \<and>
   fst (bitpanda_processFileContents example_host resolver_found bitpanda_file) =
     SuccessCallback bitpanda_file_envelope \<and>
   list_all activity_numbers_ok (activities bitpanda_file_envelope)"
proof -
  note c4 = C4_numbers_never_negative
    [of example_host resolver_found truewealth_columns truewealth_buy_file truewealth_buy_envelope
        example_host resolver_found bitpanda_file bitpanda_file_envelope]
  from c4 truewealth_buy_file_run bitpanda_file_run
  have "(\<forall>a\<in>set (activities truewealth_buy_envelope). activity_numbers_ok a) \<and>
        (\<forall>a\<in>set (activities bitpanda_file_envelope). activity_numbers_ok a)"
    by blast
  with truewealth_buy_file_run bitpanda_file_run show ?thesis
    by (simp add: list_all_iff)
qed

theorem C4_counterexample:
  "delivered (fst (truewealth_processFileContents example_host resolver_found truewealth_columns
     truewealth_empty_shares_file)) =
     Some \<lparr>meta_date = ''2024-02-01T00:00:00Z'', meta_version = ''v0'',
       activities = [truewealth_empty_shares_activity]\<rparr> \<and>
   a_quantity truewealth_empty_shares_activity = NaN \<and>
   \<not> js_ge_zero (a_quantity truewealth_empty_shares_activity)"
proof -
  have a: "delivered (fst (truewealth_processFileContents example_host resolver_found
             truewealth_columns truewealth_empty_shares_file)) =
           Some \<lparr>meta_date = ''2024-02-01T00:00:00Z'', meta_version = ''v0'',
             activities = [truewealth_empty_shares_activity]\<rparr>"
    by (simp add: truewealth_empty_shares_run delivered_def)
  have b: "a_quantity truewealth_empty_shares_activity = NaN"
    by (simp add: truewealth_empty_shares_activity_def)
  then have c: "\<not> js_ge_zero (a_quantity truewealth_empty_shares_activity)" by simp
  from a b c show ?thesis by (intro conjI)
qed

text \<open>
  C5, as amended: for every numeric column of the Bitpanda converter, the empty string and
  the placeholder \<open>-\<close> are cast to the number 0. (The TrueWealth cast hands every numeric
  cell to \<open>parseFloat\<close>, which gives \<open>NaN\<close> for both.)
\<close>

theorem C5_bitpanda_placeholder_is_zero:
  "column \<in> set floatFields \<Longrightarrow>
   bitpanda_cast column [] = Number (Finite 0) \<and> bitpanda_cast column ''-'' = Number (Finite 0)"
  by (simp add: bitpanda_cast_def)

theorem C5_witness:
  "''fee'' \<in> set floatFields \<and>
   bitpanda_cast ''fee'' [] = Number (Finite 0) \<and> bitpanda_cast ''fee'' ''-'' = Number (Finite 0)"
proof -
  have m: "''fee'' \<in> set floatFields" by (simp add: floatFields_def)
  from C5_bitpanda_placeholder_is_zero [OF m] m show ?thesis by simp
qed

theorem C5_counterexample:
  "truewealth_cast ''price'' [] = Number NaN \<and> truewealth_cast ''price'' ''-'' = Number NaN"
  by (simp add: truewealth_cast_def parseFloat_def unsigned_literal_def is_space_def is_digit_def
        toLowerCase_def lower_char_def)

text \<open>
  C6, as amended: in the Bitpanda converter, every line after the header line that is not
  blank and has fewer comma-separated columns than the schema is padded on the right with
  one \<open>,-\<close> per missing column before the tokenizer reads it: the line the tokenizer reads
  has exactly the columns of the schema, those of the line followed by placeholders, and the
  placeholder is cast to 0 in every numeric column. (The TrueWealth converter hands its
  input to the tokenizer as it is.)
\<close>

theorem C6_bitpanda_short_row_is_padded:
  assumes "headerLineIdx < i" and "i < length (split_lines input)"
    and "\<not> blank (split_lines input ! i)"
    and "length (split_on CHR '','' (split_lines input ! i)) < length bitpanda_processHeaders"
  shows "split_on newline (processedInput input) ! i =
           split_lines input ! i @
           concat (replicate (length bitpanda_processHeaders -
                     length (split_on CHR '','' (split_lines input ! i))) '',-'') \<and>
         split_on newline (processedInput input) ! i
           \<in> set (record_lines bitpanda_fromLine (processedInput input)) \<and>
         split_on CHR '','' (split_on newline (processedInput input) ! i) =
           split_on CHR '','' (split_lines input ! i) @
           replicate (length bitpanda_processHeaders -
                        length (split_on CHR '','' (split_lines input ! i))) ''-'' \<and>
         length (split_on CHR '','' (split_on newline (processedInput input) ! i)) =
           length bitpanda_processHeaders \<and>
         (\<forall>column\<in>set floatFields. bitpanda_cast column ''-'' = Number (Finite 0))"
proof -
  let ?l = "split_lines input ! i"
  let ?k = "length bitpanda_processHeaders - length (split_on CHR '','' ?l)"
  have line: "split_on newline (processedInput input) ! i = ?l @ concat (replicate ?k '',-'')"
    using assms by (simp add: tokenizer_lines pad_lines_nth_data pad_line_def Let_def)
  have cols: "split_on CHR '','' (?l @ concat (replicate ?k '',-'')) =
      split_on CHR '','' ?l @ replicate ?k ''-''"
    by (rule split_on_padding)
  have len: "length (split_on CHR '','' ?l @ replicate ?k ''-'') = length bitpanda_processHeaders"
    using assms(4) by simp
  from assms(3) have "?l \<noteq> []" by (auto simp: blank_def)
  then have ne: "split_on newline (processedInput input) ! i \<noteq> []"
    by (simp add: line)
  have "i < length (split_on newline (processedInput input))"
    using assms(2) by (simp add: tokenizer_lines length_pad_lines)
  moreover have "bitpanda_fromLine - 1 \<le> i"
    using assms(1) by (simp add: bitpanda_fromLine_def headerLineIdx_def)
  ultimately have mem: "split_on newline (processedInput input) ! i
      \<in> set (record_lines bitpanda_fromLine (processedInput input))"
    using ne by (intro record_lines_member)
  have cast: "\<forall>column\<in>set floatFields. bitpanda_cast column ''-'' = Number (Finite 0)"
    by (simp add: bitpanda_cast_def)
  from mem cast show ?thesis
    unfolding line cols len by simp
qed

theorem C6_witness:
  "headerLineIdx < 8 \<and> 8 < length (split_lines bitpanda_file) \<and>
   \<not> blank (split_lines bitpanda_file ! 8) \<and>
   length (split_on CHR '','' (split_lines bitpanda_file ! 8)) = 14 \<and>
   length bitpanda_processHeaders = 18 \<and>
   split_on newline (processedInput bitpanda_file) ! 8 =
     ''T1,2024-01-05T10:00:00Z,buy,outgoing,100.00,EUR,0.5,BTC,200.00,EUR,Cryptocurrency,1,1.00,EUR,-,-,-,-'' \<and>
   split_on newline (processedInput bitpanda_file) ! 8
     \<in> set (record_lines bitpanda_fromLine (processedInput bitpanda_file)) \<and>
   length (split_on CHR '','' (split_on newline (processedInput bitpanda_file) ! 8)) = 18 \<and>
   list_all (\<lambda>column. bitpanda_cast column ''-'' = Number (Finite 0)) floatFields"
proof -
  have a: "headerLineIdx < 8" by (simp add: headerLineIdx_def)
  have b: "8 < length (split_lines bitpanda_file)"
    by (simp add: bitpanda_file_split_lines bitpanda_file_lines_def)
  have c: "\<not> blank (split_lines bitpanda_file ! 8)"
    by (simp add: bitpanda_file_split_lines bitpanda_file_lines_def blank_def is_space_def)
  have n: "length (split_on CHR '','' (split_lines bitpanda_file ! 8)) = 14"
    by (simp add: bitpanda_file_split_lines bitpanda_file_lines_def)
  have h: "length bitpanda_processHeaders = 18" by (simp add: bitpanda_processHeaders_def)
  from n h have d: "length (split_on CHR '','' (split_lines bitpanda_file ! 8))
      < length bitpanda_processHeaders" by simp
  have l: "split_on newline (processedInput bitpanda_file) ! 8 =
     ''T1,2024-01-05T10:00:00Z,buy,outgoing,100.00,EUR,0.5,BTC,200.00,EUR,Cryptocurrency,1,1.00,EUR,-,-,-,-''"
    by (simp add: bitpanda_file_tokenizer_lines bitpanda_file_lines_def)
  note padded = C6_bitpanda_short_row_is_padded [OF a b c d]
  note m = padded [THEN conjunct2, THEN conjunct1]
  note len = padded [THEN conjunct2, THEN conjunct2, THEN conjunct2, THEN conjunct1]
  note cast = padded [THEN conjunct2, THEN conjunct2, THEN conjunct2, THEN conjunct2]
  from len h have len': "length (split_on CHR '','' (split_on newline
      (processedInput bitpanda_file) ! 8)) = 18" by simp
  from cast have cast':
    "list_all (\<lambda>column. bitpanda_cast column ''-'' = Number (Finite 0)) floatFields"
    by (simp add: list_all_iff)
  from a b c n h l m len' cast' show ?thesis by (intro conjI)
qed

theorem C6_counterexample:
  "record_lines 2 (truewealth_parser_input truewealth_short_row_file) = [''2024-01-05,Buy,CHF,10,5''] \<and>
   length truewealth_columns = 12 \<and>
   fst (truewealth_processFileContents example_host resolver_found truewealth_columns
     truewealth_short_row_file) =
     ErrorCallback (ParsingFailed (Some (Invalid_Record_Length 12 5 2)))"
  by (simp add: truewealth_run_defs truewealth_short_row_file_def)

text \<open>
  C7, as amended: for a Bitpanda record that is not ignored, is classified and has asset
  class metal (in any letter case), the security service is called with the asset name as
  display name and nothing else, and the activity of the asset (the last one pushed for the
  record) has the asset amount divided by 31.1034768 as quantity and the market price
  multiplied by 31.1034768 as unit price; when the service finds nothing or throws, its
  symbol is the asset name of the record.
\<close>

theorem C7_metal_is_converted_and_looked_up:
  assumes "\<not> bitpanda_isIgnoredRecord r" and "bitpanda_type r = Some ty"
    and "toLowerCase (assetClass r) = ''metal''"
  shows "appended st (bitpanda_step h getSecurity idx r st) \<noteq> [] \<and>
     a_quantity (last (appended st (bitpanda_step h getSecurity idx r st))) =
       js_divide (amountAsset r) 31.1034768 \<and>
     a_unitPrice (last (appended st (bitpanda_step h getSecurity idx r st))) =
       js_times (assetMarketPrice r) 31.1034768 \<and>
     Lookup idx \<lparr>q_isin = None, q_symbol = None, q_name = Some (asset r), q_currency = None\<rparr>
       \<in> set (trace (bitpanda_step h getSecurity idx r st)) \<and>
     (getSecurity idx (metal_query r) = Nothing \<or> getSecurity idx (metal_query r) = Throws err \<longrightarrow>
      a_symbol (last (appended st (bitpanda_step h getSecurity idx r st))) = Some (asset r))"
proof -
  let ?sqp = "fst (bitpanda_asset getSecurity idx r)"
  note app = appended_bitpanda_step [OF assms(1,2), of st h getSecurity idx]
  note last = bitpanda_activities_last [of h r ty ?sqp]
  have "Lookup idx (metal_query r) \<in> set (trace (bitpanda_step h getSecurity idx r st))"
    by (simp add: bitpanda_step_classified [OF assms(1,2)] bitpanda_asset_metal [OF assms(3)]
          metal_symbol_lookup)
  then have look: "Lookup idx \<lparr>q_isin = None, q_symbol = None, q_name = Some (asset r),
      q_currency = None\<rparr> \<in> set (trace (bitpanda_step h getSecurity idx r st))"
    by (simp add: metal_query_def)
  have sym: "getSecurity idx (metal_query r) = Nothing \<or> getSecurity idx (metal_query r) = Throws err
      \<longrightarrow> fst ?sqp = asset r"
    by (simp add: bitpanda_asset_metal [OF assms(3)] metal_symbol_fallback)
  from last look sym show ?thesis
    unfolding app by (simp add: bitpanda_asset_metal [OF assms(3)])
qed

theorem C7_witness:
  "\<not> bitpanda_isIgnoredRecord metal_buy_record \<and> bitpanda_type metal_buy_record = Some ''buy'' \<and>
   toLowerCase (assetClass metal_buy_record) = ''metal'' \<and>
   resolver_throws 0 (metal_query metal_buy_record) = Throws ''timeout'' \<and>
   appended empty_state (bitpanda_step example_host resolver_throws 0 metal_buy_record empty_state)
     \<noteq> [] \<and>
   a_quantity (last (appended empty_state
     (bitpanda_step example_host resolver_throws 0 metal_buy_record empty_state))) = Finite 1 \<and>
   a_unitPrice (last (appended empty_state
     (bitpanda_step example_host resolver_throws 0 metal_buy_record empty_state))) =
     Finite 62.2069536 \<and>
   Lookup 0 \<lparr>q_isin = None, q_symbol = None, q_name = Some ''Gold'', q_currency = None\<rparr>
     \<in> set (trace (bitpanda_step example_host resolver_throws 0 metal_buy_record empty_state)) \<and>
   a_symbol (last (appended empty_state
     (bitpanda_step example_host resolver_throws 0 metal_buy_record empty_state))) = Some ''Gold''"
proof -
  have i: "\<not> bitpanda_isIgnoredRecord metal_buy_record"
    by (simp add: bitpanda_isIgnoredRecord_def metal_buy_record_def toLowerCase_def lower_char_def)
  have t: "bitpanda_type metal_buy_record = Some ''buy''"
    by (simp add: bitpanda_type_def metal_buy_record_def toLowerCase_def lower_char_def)
  have c: "toLowerCase (assetClass metal_buy_record) = ''metal''"
    by (simp add: metal_buy_record_def toLowerCase_def lower_char_def)
  have g: "resolver_throws 0 (metal_query metal_buy_record) = Throws ''timeout''"
    by (simp add: resolver_throws_def)
  have v: "amountAsset metal_buy_record = Finite 31.1034768"
    "assetMarketPrice metal_buy_record = Finite 2" "asset metal_buy_record = ''Gold''"
    by (simp_all add: metal_buy_record_def)
  from C7_metal_is_converted_and_looked_up
    [where st = empty_state and h = example_host and getSecurity = resolver_throws and idx = 0
       and err = "''timeout''", OF i t c] i t c g
  show ?thesis by (simp add: v)
qed

theorem C7_counterexample:
  "\<not> bitpanda_isIgnoredRecord metal_withdrawal_record \<and>
   toLowerCase (assetClass metal_withdrawal_record) = ''metal'' \<and>
   bitpanda_callback example_host resolver_found None (Some [metal_withdrawal_record]) =
     (SuccessCallback \<lparr>meta_date = ''2024-02-01T00:00:00Z'', meta_version = ''v0'',
        activities = []\<rparr>, [])"
  by (simp add: bitpanda_run_defs metal_withdrawal_record_def)

text \<open>
  C8: in the Bitpanda converter the columns are the fixed list, and the tokenizer is to
  start after the metadata lines and after the header line. It starts one line early: for
  every input of more than eight lines, the first line made into a record is the line at
  \<open>headerLineIdx\<close>, the very line the converter takes for the header.
\<close>

theorem C8_bitpanda_header_line_is_tokenized:
  assumes "headerLineIdx + 1 < length (split_lines input)"
  shows "record_lines bitpanda_fromLine (processedInput input) \<noteq> [] \<and>
         hd (record_lines bitpanda_fromLine (processedInput input)) =
           split_lines input ! headerLineIdx"
proof -
  have t: "split_on newline (processedInput input) = pad_lines (split_lines input)"
    by (rule tokenizer_lines)
  from assms have "bitpanda_fromLine < length (split_on newline (processedInput input))"
    by (simp add: t length_pad_lines bitpanda_fromLine_def headerLineIdx_def)
  moreover have "0 < bitpanda_fromLine" by (simp add: bitpanda_fromLine_def)
  ultimately have "record_lines bitpanda_fromLine (processedInput input) \<noteq> [] \<and>
      hd (record_lines bitpanda_fromLine (processedInput input)) =
        split_on newline (processedInput input) ! (bitpanda_fromLine - 1)"
    by (rule record_lines_first)
  moreover have "bitpanda_fromLine - 1 = headerLineIdx"
    by (simp add: bitpanda_fromLine_def headerLineIdx_def)
  moreover from assms have "pad_lines (split_lines input) ! headerLineIdx =
      split_lines input ! headerLineIdx"
    by (intro pad_lines_nth_header) simp_all
  ultimately show ?thesis by (simp add: t)
qed

theorem C8_witness:
  "headerLineIdx + 1 < length (split_lines bitpanda_file) \<and>
   record_lines bitpanda_fromLine (processedInput bitpanda_file) \<noteq> [] \<and>
   hd (record_lines bitpanda_fromLine (processedInput bitpanda_file)) =
     ''Transaction ID,Timestamp,Transaction Type,In/Out,Amount Fiat,Fiat,Amount Asset,Asset,Asset market price,Asset market price currency,Asset class,Product ID,Fee,Fee asset,Fee percent,Spread,Spread Currency,Tax Fiat'' \<and>
   bitpanda_parse bitpanda_file = Inr bitpanda_file_records \<and>
   map transactionId bitpanda_file_records = [''Transaction ID'', ''T1'']"
proof -
  have a: "headerLineIdx + 1 < length (split_lines bitpanda_file)"
    by (simp add: bitpanda_file_split_lines bitpanda_file_lines_def headerLineIdx_def)
  have l: "split_lines bitpanda_file ! headerLineIdx =
     ''Transaction ID,Timestamp,Transaction Type,In/Out,Amount Fiat,Fiat,Amount Asset,Asset,Asset market price,Asset market price currency,Asset class,Product ID,Fee,Fee asset,Fee percent,Spread,Spread Currency,Tax Fiat''"
    by (simp add: bitpanda_file_split_lines bitpanda_file_lines_def headerLineIdx_def)
  have r: "map transactionId bitpanda_file_records = [''Transaction ID'', ''T1'']"
    by (simp add: bitpanda_file_records_def)
  note first = C8_bitpanda_header_line_is_tokenized [OF a]
  note ne = first [THEN conjunct1]
  from first [THEN conjunct2] l
  have hd: "hd (record_lines bitpanda_fromLine (processedInput bitpanda_file)) =
     ''Transaction ID,Timestamp,Transaction Type,In/Out,Amount Fiat,Fiat,Amount Asset,Asset,Asset market price,Asset market price currency,Asset class,Product ID,Fee,Fee asset,Fee percent,Spread,Spread Currency,Tax Fiat''"
    by (rule trans)
  from a ne hd bitpanda_file_parse r show ?thesis by (intro conjI)
qed

text \<open>
  C9: every activity the TrueWealth converter emits has fee 0, whatever the fees column of
  its record holds. The fee of a record is a primitive number, \<open>isNumberObject\<close> is
  false for it, and so the defaulting branch runs for every record.
\<close>

theorem C9_truewealth_fee_is_zero:
  assumes "fst (truewealth_processFileContents h getSecurity columns input) = SuccessCallback e"
    and "a \<in> set (activities e)"
  shows "a_fee a = Finite 0"
proof -
  from truewealth_processFileContents_activities [OF assms]
  obtain r sec where "a = truewealth_activity h r sec" by blast
  then show ?thesis by (simp add: truewealth_activity_fee)
qed

theorem C9_witness:
  "fst (truewealth_processFileContents example_host resolver_found truewealth_columns
          truewealth_buy_file) = SuccessCallback truewealth_buy_envelope \<and>
   hd (activities truewealth_buy_envelope) \<in> set (activities truewealth_buy_envelope) \<and>
   a_fee (hd (activities truewealth_buy_envelope)) = Finite 0"
proof -
  have m: "hd (activities truewealth_buy_envelope) \<in> set (activities truewealth_buy_envelope)"
    by (simp add: truewealth_buy_envelope_def)
  from C9_truewealth_fee_is_zero [OF truewealth_buy_file_run m] truewealth_buy_file_run m
  show ?thesis by simp
qed

text \<open>
  C10, as amended: for a Bitpanda record that is not ignored, is classified, has asset class
  cryptocurrency (in any letter case) and whose asset name is not the name of a member every
  object inherits (\<open>constructor\<close>, \<open>toString\<close>, \<open>__proto__\<close> and the like), the
  symbol of the activity of the asset (the only activity pushed for a buy or a sell, the
  second of the two pushed for a reward) is the asset name, with \<open>POL\<close> alone renamed to
  \<open>MATIC\<close>, followed by \<open>USD\<close>. The fiat currency and the currency of the market
  price have no part in it.
\<close>

theorem C10_cryptocurrency_symbol:
  assumes "\<not> bitpanda_isIgnoredRecord r" and "bitpanda_type r = Some ty"
    and "toLowerCase (assetClass r) = ''cryptocurrency''"
    and "asset r \<notin> set (map fst Object_prototype)"
  shows "appended st (bitpanda_step h getSecurity idx r st) \<noteq> [] \<and>
     (ty \<noteq> ''interest'' \<longrightarrow> length (appended st (bitpanda_step h getSecurity idx r st)) = 1) \<and>
     a_symbol (last (appended st (bitpanda_step h getSecurity idx r st))) =
       Some ((if asset r = ''POL'' then ''MATIC'' else asset r) @ ''USD'') \<and>
     a_symbol (last (appended st (bitpanda_step h getSecurity idx
        (r\<lparr>fiat := f, assetMarketPriceCurrency := c\<rparr>) st))) =
       Some ((if asset r = ''POL'' then ''MATIC'' else asset r) @ ''USD'')"
proof -
  let ?r = "r\<lparr>fiat := f, assetMarketPriceCurrency := c\<rparr>"
  have i': "\<not> bitpanda_isIgnoredRecord ?r"
    using assms(1) by (simp add: bitpanda_isIgnoredRecord_def)
  have "bitpanda_type ?r = bitpanda_type r"
    by (simp add: bitpanda_type_def)
  with assms(2) have t': "bitpanda_type ?r = Some ty" by simp
  have c': "toLowerCase (assetClass ?r) = ''cryptocurrency''"
    using assms(3) by simp
  have n': "asset ?r \<notin> set (map fst Object_prototype)"
    using assms(4) by simp
  have "a_symbol (last (appended st (bitpanda_step h getSecurity idx r st))) =
      Some (template_text (mapBitpandaSymbolToYahoo (asset r)) @ ''USD'')"
    by (simp add: appended_bitpanda_step [OF assms(1,2)] bitpanda_activities_last
          bitpanda_asset_cryptocurrency [OF assms(3)])
  moreover have "a_symbol (last (appended st (bitpanda_step h getSecurity idx ?r st))) =
      Some (template_text (mapBitpandaSymbolToYahoo (asset ?r)) @ ''USD'')"
    by (simp only: appended_bitpanda_step [OF i' t'] bitpanda_activities_last
          bitpanda_asset_cryptocurrency [OF c'])
  moreover have "appended st (bitpanda_step h getSecurity idx r st) \<noteq> []"
    by (simp add: appended_bitpanda_step [OF assms(1,2)] bitpanda_activities_last)
  moreover have "ty \<noteq> ''interest'' \<longrightarrow>
      length (appended st (bitpanda_step h getSecurity idx r st)) = 1"
    by (simp add: appended_bitpanda_step [OF assms(1,2)] bitpanda_activities_def Let_def)
  moreover have "template_text (mapBitpandaSymbolToYahoo (asset r)) =
      (if asset r = ''POL'' then ''MATIC'' else asset r)"
    using assms(4) by (rule mapBitpandaSymbolToYahoo_eq)
  moreover have "template_text (mapBitpandaSymbolToYahoo (asset ?r)) =
      (if asset ?r = ''POL'' then ''MATIC'' else asset ?r)"
    using n' by (rule mapBitpandaSymbolToYahoo_eq)
  ultimately show ?thesis by simp
qed

theorem C10_witness:
  "\<not> bitpanda_isIgnoredRecord pol_buy_record \<and> bitpanda_type pol_buy_record = Some ''buy'' \<and>
   toLowerCase (assetClass pol_buy_record) = ''cryptocurrency'' \<and>
   asset pol_buy_record \<notin> set (map fst Object_prototype) \<and>
   appended empty_state (bitpanda_step example_host resolver_found 0 pol_buy_record empty_state)
     \<noteq> [] \<and>
   length (appended empty_state
     (bitpanda_step example_host resolver_found 0 pol_buy_record empty_state)) = 1 \<and>
   a_symbol (last (appended empty_state
     (bitpanda_step example_host resolver_found 0 pol_buy_record empty_state))) = Some ''MATICUSD'' \<and>
   a_symbol (last (appended empty_state
     (bitpanda_step example_host resolver_found 0
        (pol_buy_record\<lparr>fiat := ''USD'', assetMarketPriceCurrency := []\<rparr>) empty_state))) =
     Some ''MATICUSD''"
proof -
  have i: "\<not> bitpanda_isIgnoredRecord pol_buy_record"
    by (simp add: bitpanda_isIgnoredRecord_def pol_buy_record_def toLowerCase_def lower_char_def)
  have t: "bitpanda_type pol_buy_record = Some ''buy''"
    by (simp add: bitpanda_type_def pol_buy_record_def toLowerCase_def lower_char_def)
  have c: "toLowerCase (assetClass pol_buy_record) = ''cryptocurrency''"
    by (simp add: pol_buy_record_def toLowerCase_def lower_char_def)
  have n: "asset pol_buy_record \<notin> set (map fst Object_prototype)"
    by (simp add: pol_buy_record_def Object_prototype_def)
  have v: "asset pol_buy_record = ''POL''"
    by (simp add: pol_buy_record_def)
  from C10_cryptocurrency_symbol
    [where st = empty_state and h = example_host and getSecurity = resolver_found and idx = 0
       and f = "''USD''" and c = "[]", OF i t c n] i t c n
  show ?thesis by (simp add: v)
qed

theorem C10_counterexample:
  "\<not> bitpanda_isIgnoredRecord constructor_buy_record \<and>
   bitpanda_type constructor_buy_record = Some ''buy'' \<and>
   toLowerCase (assetClass constructor_buy_record) = ''cryptocurrency'' \<and>
   asset constructor_buy_record = ''constructor'' \<and>
   map a_symbol (appended empty_state
     (bitpanda_step example_host resolver_found 0 constructor_buy_record empty_state)) =
     [Some ''function Object() { [native code] }USD''] \<and>
   ''function Object() { [native code] }USD'' \<noteq> ''constructorUSD''"
  by (simp add: appended_def bitpanda_run_defs constructor_buy_record_def empty_state_def)

end
